theory Spec2Isabelle
  imports Main
begin

section \<open>Values shared by the three source files\<close>

text \<open>
  The sources are Go. Every function of the sources that can fail returns an \<open>error\<close>
  (\<open>nil\<close> on success); the model returns \<open>error option\<close> (\<open>None\<close> is \<open>nil\<close>) or
  \<open>error + 'a\<close> for a Go pair \<open>(value, error)\<close>.

  The collaborators of the sources (inventory, reconciliation repository, status updater,
  chart provider, Kubernetes client, progress tracker) are Go interfaces or types of packages
  that are not part of the three files. An interface value is modelled as a record of
  functions over an external state \<open>'w\<close> (the database, the target cluster, the remote
  callback endpoint), so that every theorem below holds for every implementation.
\<close>

text \<open>
  Modelled from the spec: \<open>model.Status\<close> (package \<open>pkg/model\<close>) is missing; section 3 of the
  spec lists the values of a cluster status.
\<close>

datatype Status = Reconcilable | Reconciling | Ready | Error | Deleting | Deleted

text \<open>
  Modelled from the spec: the entities of package \<open>pkg/cluster\<close> and
  \<open>pkg/scheduler/reconciliation\<close> are missing. The records hold the fields that the sources
  read. Go's \<open>State.Cluster\<close>, \<open>State.Configuration\<close> and \<open>State.Status\<close> are prefixed with
  \<open>State_\<close>, the fields \<open>Version\<close> and \<open>Status\<close> with the name of their entity, and the fields
  of the reconciliation entity with \<open>Recon\<close>, because field names are global in a theory.
\<close>

record ClusterEntity =
  Cluster :: string
  ClusterVersion :: int

record ClusterConfigurationEntity =
  ConfigurationVersion :: int

record ClusterStatusEntity =
  StatusOf :: Status

record State =
  State_Cluster :: ClusterEntity
  State_Configuration :: ClusterConfigurationEntity
  State_Status :: ClusterStatusEntity

record ReconciliationEntity =
  SchedulingID :: string
  ReconCluster :: string
  ReconClusterConfig :: int
  Finished :: bool

text \<open>A deployed resource, as \<open>kubernetes.Client.DeployedResources\<close> returns it.\<close>

record Resource =
  Kind :: string
  ResourceName :: string
  ResourceNamespace :: string

text \<open>
  The Go values that the sources hand to a format string or to the JSON encoder.
  \<open>fmt.Sprintf\<close>, \<open>fmt.Errorf\<close> and the logger are not rendered: a formatted message is the
  format string of the source with the list of its arguments.
\<close>

datatype gvalue =
    Str string
  | Num int
  | StatusArg Status
  | StatusEntityArg ClusterStatusEntity
  | ReconArg ReconciliationEntity
  | ResourceArg Resource

text \<open>
  Go errors. \<open>EntityNotFoundError\<close> and \<open>DuplicateClusterReconciliationError\<close> are the two
  kinds that the sources test for (\<open>repository.IsNotFoundError\<close>,
  \<open>reconciliation.IsDuplicateClusterReconciliationError\<close>); \<open>GenericError\<close> is any other error
  of a collaborator; \<open>Errorf\<close> is \<open>fmt.Errorf\<close>; \<open>Wrap\<close> is \<open>errors.Wrap\<close> (with the message as a
  format string and its arguments); \<open>RetryError\<close> is the list of the errors of the attempts
  that \<open>retry.Do\<close> returns with \<open>LastErrorOnly(false)\<close>; \<open>ContextError\<close> is the error of a
  cancelled context; \<open>Panic\<close> is a run-time panic (a nil dereference), which leaves the
  function like an error that no caller handles.
\<close>

datatype error =
    EntityNotFoundError string
  | DuplicateClusterReconciliationError string
  | GenericError string
  | Errorf string "gvalue list"
  | Wrap error string "gvalue list"
  | RetryError "error list"
  | ContextError string
  | Panic string

datatype logarg = A gvalue | E error

datatype level = Debug | Info | Warn | ErrorLevel

datatype logentry = Log level string "logarg list"

text \<open>An opaque handle of the Kubernetes client set (\<open>kubernetes.Interface\<close>).\<close>

datatype clientset = ClientsetHandle nat

text \<open>An opaque handle of the callback (\<open>callback.Handler\<close>) that \<open>Run\<close> hands to the status updater.\<close>

datatype Handler = CallbackHandler nat

type_synonym ManifestType = string

type_synonym WatchableResource = string

type_synonym Duration = nat

text \<open>
  The calls to collaborators, recorded in the order in which they are made. The record of
  calls is what lets a theorem say that a collaborator is, or is not, invoked.
\<close>

datatype call =
    CreateReconciliationCall State "string list"
  | GetReconciliationCall string
  | FinishReconciliationCall string ClusterStatusEntity
  | InventoryGetCall string int
  | InventoryGetLatestCall string
  | InventoryUpdateStatusCall State Status
  | InventoryDeleteCall string
  | NewStatusUpdaterCall
  | RunningCall
  | FailedCall
  | SuccessCall
  | ErrorCall
  | WaitCall Duration
  | NewKubernetesClientCall string
  | ClientsetCall
  | PreInstallCall string clientset
  | InstallCall string clientset
  | PostInstallCall string clientset
  | ManifestsCall bool
  | DeployCall string
  | NewProgressTrackerCall clientset
  | DeployedResourcesCall string
  | AddResourceCall WatchableResource string string
  | WatchCall

record 'w world =
  ext :: 'w
  calls :: "call list"
  logs :: "logentry list"

definition invoke :: "call \<Rightarrow> ('w \<Rightarrow> 'r \<times> 'w) \<Rightarrow> 'w world \<Rightarrow> 'r \<times> 'w world" where
  "invoke c f w = (case f (ext w) of (r, s) \<Rightarrow> (r, w\<lparr>ext := s, calls := calls w @ [c]\<rparr>))"

definition logger :: "level \<Rightarrow> string \<Rightarrow> logarg list \<Rightarrow> 'w world \<Rightarrow> 'w world" where
  "logger l msg args w = w\<lparr>logs := logs w @ [Log l msg args]\<rparr>"

definition quote :: string where
  "quote = [CHR 0x27]"

definition newline :: string where
  "newline = [CHR 0x0A]"

section \<open>The component runner (\<open>src/unnamed/part_001\<close>)\<close>

subsection \<open>Collaborators of the runner\<close>

datatype jvalue = JString string | JInt int | JBool bool | JNull

record Configuration =
  Key :: string
  Value :: jvalue

text \<open>\<open>reconciler.Reconciliation\<close>: the model that \<open>Run\<close> receives.\<close>

record Reconciliation =
  Component :: string
  Namespace :: string
  Version :: string
  Profile :: string
  Kubeconfig :: string
  InstallCRD :: bool
  Configuration :: "Configuration list"

text \<open>\<open>chart.Component\<close> and \<open>chart.ComponentSet\<close>, as their constructors receive them.\<close>

record ChartComponent =
  chart_name :: string
  chart_namespace :: string
  chart_configuration :: "string \<rightharpoonup> jvalue"

record ComponentSet =
  set_kubeconfig :: string
  set_version :: string
  set_profile :: string
  set_components :: "ChartComponent list"

text \<open>
  \<open>components.Manifest\<close> of the hydroform library; the field \<open>Manifest\<close> is \<open>ManifestText\<close>. Its
  type is a string, which \<open>%s\<close> prints as it is; the value of the constant \<open>components.CRD\<close> is a
  parameter (\<open>components_CRD\<close> below).
\<close>

record Manifest =
  Type :: ManifestType
  Name :: string
  ManifestText :: string

text \<open>\<open>status.Updater\<close>: the four transitions that the runner asks for.\<close>

record 'w Updater =
  Updater_Running :: "'w \<Rightarrow> error option \<times> 'w"
  Updater_Failed :: "'w \<Rightarrow> error option \<times> 'w"
  Updater_Success :: "'w \<Rightarrow> error option \<times> 'w"
  Updater_Error :: "'w \<Rightarrow> error option \<times> 'w"

text \<open>\<open>kubernetes.Client\<close>.\<close>

record 'w Client =
  Client_Clientset :: "'w \<Rightarrow> (error + clientset) \<times> 'w"
  Client_Deploy :: "string \<Rightarrow> 'w \<Rightarrow> error option \<times> 'w"
  Client_DeployedResources :: "string \<Rightarrow> 'w \<Rightarrow> (error + Resource list) \<times> 'w"

text \<open>\<open>progress.Tracker\<close>.\<close>

record 'w Tracker =
  Tracker_AddResource :: "WatchableResource \<Rightarrow> string \<Rightarrow> string \<Rightarrow> 'w \<Rightarrow> 'w"
  Tracker_Watch :: "'w \<Rightarrow> error option \<times> 'w"

text \<open>
  \<open>context.Context\<close>: \<open>ctx.Err()\<close> is read from the external state; \<open>Context_Wait d\<close> is the
  \<open>select\<close> between \<open>time.After(d)\<close> and \<open>ctx.Done()\<close>, which returns the error of the context
  when the context is cancelled before the delay has passed.
\<close>

record 'w Context =
  Context_Err :: "'w \<Rightarrow> error option"
  Context_Wait :: "Duration \<Rightarrow> 'w \<Rightarrow> error option \<times> 'w"

text \<open>An action (\<open>Action.Run(version, clientSet)\<close>).\<close>

type_synonym 'w Action = "string \<Rightarrow> clientset \<Rightarrow> 'w \<Rightarrow> error option \<times> 'w"

record UpdaterConfig =
  Interval :: Duration
  MaxRetries :: int
  RetryDelay :: Duration

record TrackerConfig =
  Timeout :: Duration
  TrackerInterval :: Duration

text \<open>
  The package-level functions and constants that the runner imports: \<open>status.NewStatusUpdater\<close>,
  \<open>kubernetes.NewKubernetesClient\<close>, \<open>progress.NewProgressTracker\<close>,
  \<open>progress.NewWatchableResource\<close> and the constant \<open>components.CRD\<close>. They are parameters of
  the model.
\<close>

record 'w packages =
  status_NewStatusUpdater :: "'w Context \<Rightarrow> Handler \<Rightarrow> bool \<Rightarrow> UpdaterConfig \<Rightarrow> 'w \<Rightarrow> (error + 'w Updater) \<times> 'w"
  kubernetes_NewKubernetesClient :: "string \<Rightarrow> 'w \<Rightarrow> (error + 'w Client) \<times> 'w"
  progress_NewProgressTracker :: "'w Context \<Rightarrow> clientset \<Rightarrow> bool \<Rightarrow> TrackerConfig \<Rightarrow> 'w \<Rightarrow> (error + 'w Tracker) \<times> 'w"
  progress_NewWatchableResource :: "string \<Rightarrow> error + WatchableResource"
  components_CRD :: ManifestType

text \<open>
  The two configuration structs of \<open>ComponentReconciler\<close> have the fields of \<open>status.Config\<close> and
  \<open>progress.Config\<close>, to which \<open>Run\<close> and \<open>trackProgress\<close> copy them field by field; the model
  uses one record for each pair.

  The fields of \<open>ComponentReconciler\<close> that the runner reads (the runner embeds a pointer to
  it). A hook that is not registered is \<open>None\<close> (\<open>nil\<close> in Go).
\<close>

record 'w runner =
  debug :: bool
  maxRetries :: int
  retryDelay :: Duration
  statusUpdaterConfig :: UpdaterConfig
  progressTrackerConfig :: TrackerConfig
  preInstallAction :: "'w Action option"
  installAction :: "'w Action option"
  postInstallAction :: "'w Action option"
  chartProvider :: "ComponentSet \<Rightarrow> bool \<Rightarrow> 'w \<Rightarrow> (error + Manifest list) \<times> 'w"

subsection \<open>\<open>configMap\<close>, \<open>newComponentSet\<close>, \<open>renderManifest\<close>\<close>

fun configMap_loop :: "Configuration list \<Rightarrow> (string \<rightharpoonup> jvalue) \<Rightarrow> (string \<rightharpoonup> jvalue)" where
  "configMap_loop [] result = result"
| "configMap_loop (entry # rest) result = configMap_loop rest (result(Key entry \<mapsto> Value entry))"

definition configMap :: "Reconciliation \<Rightarrow> (string \<rightharpoonup> jvalue)" where
  "configMap model = configMap_loop (Configuration model) Map.empty"

definition newComponentSet :: "Reconciliation \<Rightarrow> ComponentSet" where
  "newComponentSet model =
     (let comp = \<lparr>chart_name = Component model, chart_namespace = Namespace model,
                  chart_configuration = configMap model\<rparr>
      in \<lparr>set_kubeconfig = Kubeconfig model, set_version = Version model,
          set_profile = Profile model, set_components = [comp]\<rparr>)"

text \<open>
  The body of the loop of \<open>renderManifest\<close>: the log entry of the illegal state, then the
  four writes to the buffer.
\<close>

definition writeManifest :: "'w packages \<Rightarrow> Reconciliation \<Rightarrow> Manifest \<Rightarrow> string \<times> 'w world \<Rightarrow> string \<times> 'w world" where
  "writeManifest env model manifest bw =
     (case bw of (buffer, w) \<Rightarrow>
        (let w1 = (if \<not> InstallCRD model \<and> Type manifest = components_CRD env
                   then logger ErrorLevel
                          (''Illegal state detected! No CRDs were requested but chartProvider returned CRD manifest: '%s'' @ quote)
                          [A (Str (Name manifest))] w
                   else w);
             b1 = buffer @ ''---'' @ newline;
             b2 = b1 @ ''# Manifest of '' @ Type manifest @ '' '' @ quote @ Component model @ quote @ newline;
             b3 = b2 @ ManifestText manifest;
             b4 = b3 @ newline
         in (b4, w1)))"

fun renderManifest_loop :: "'w packages \<Rightarrow> Reconciliation \<Rightarrow> Manifest list \<Rightarrow> string \<times> 'w world \<Rightarrow> string \<times> 'w world" where
  "renderManifest_loop env model [] bw = bw"
| "renderManifest_loop env model (manifest # rest) bw =
     renderManifest_loop env model rest (writeManifest env model manifest bw)"

definition renderManifest :: "'w packages \<Rightarrow> 'w runner \<Rightarrow> Reconciliation \<Rightarrow> 'w world \<Rightarrow> (error + string) \<times> 'w world" where
  "renderManifest env r model w =
     (case invoke (ManifestsCall (InstallCRD model))
             (chartProvider r (newComponentSet model) (InstallCRD model)) w of
        (Inl err, w1) \<Rightarrow>
          (let msg = ''Failed to render manifest for component '%s'' @ quote;
               w2 = logger Warn msg [A (Str (Component model))] w1
           in (Inl (Wrap err msg [Str (Component model)]), w2))
      | (Inr manifests, w1) \<Rightarrow>
          (let w2 = logger Debug ''Rendering of component '%s' returned %d manifests''
                      [A (Str (Component model)), A (Num (int (length manifests)))] w1
           in (case renderManifest_loop env model manifests ([], w2) of
                 (buffer, w3) \<Rightarrow> (Inr buffer, w3))))"

subsection \<open>\<open>trackProgress\<close>\<close>

text \<open>The body of the loop over the deployed resources (lines 174 to 185).\<close>

definition addResource :: "'w packages \<Rightarrow> 'w Tracker \<Rightarrow> Resource \<Rightarrow> 'w world \<Rightarrow> 'w world" where
  "addResource env pt resource w =
     (case progress_NewWatchableResource env (Kind resource) of
        Inl err \<Rightarrow> logger Debug ''Ignoring non-watchable resource: %s'' [A (ResourceArg resource)] w
      | Inr watchable \<Rightarrow>
          snd (invoke (AddResourceCall watchable (ResourceNamespace resource) (ResourceName resource))
                 (\<lambda>s. ((), Tracker_AddResource pt watchable (ResourceNamespace resource) (ResourceName resource) s))
                 w))"

fun trackProgress_loop :: "'w packages \<Rightarrow> 'w Tracker \<Rightarrow> Resource list \<Rightarrow> 'w world \<Rightarrow> 'w world" where
  "trackProgress_loop env pt [] w = w"
| "trackProgress_loop env pt (resource # rest) w =
     trackProgress_loop env pt rest (addResource env pt resource w)"

definition trackProgress :: "'w packages \<Rightarrow> 'w runner \<Rightarrow> 'w Context \<Rightarrow> string \<Rightarrow> 'w Client \<Rightarrow> 'w world \<Rightarrow> error option \<times> 'w world" where
  "trackProgress env r ctx manifest kubeClient w =
     (case invoke ClientsetCall (Client_Clientset kubeClient) w of
        (Inl err, w1) \<Rightarrow> (Some err, w1)
      | (Inr clientSet, w1) \<Rightarrow>
          (case invoke (NewProgressTrackerCall clientSet)
                  (progress_NewProgressTracker env ctx clientSet (debug r) (progressTrackerConfig r)) w1 of
             (Inl err, w2) \<Rightarrow> (Some err, w2)
           | (Inr pt, w2) \<Rightarrow>
               (case invoke (DeployedResourcesCall manifest) (Client_DeployedResources kubeClient manifest) w2 of
                  (Inl err, w3) \<Rightarrow> (Some err, w3)
                | (Inr resources, w3) \<Rightarrow>
                    (let w4 = trackProgress_loop env pt resources w3;
                         w5 = logger Debug ''Start watching installation progress'' [] w4
                     in invoke WatchCall (Tracker_Watch pt) w5))))"

subsection \<open>\<open>install\<close> and \<open>reconcile\<close>\<close>

definition install :: "'w packages \<Rightarrow> 'w runner \<Rightarrow> 'w Context \<Rightarrow> Reconciliation \<Rightarrow> 'w Client \<Rightarrow> 'w world \<Rightarrow> error option \<times> 'w world" where
  "install env r ctx model kubeClient w =
     (case renderManifest env r model w of
        (Inl err, w1) \<Rightarrow> (Some err, w1)
      | (Inr manifest, w1) \<Rightarrow>
          (case invoke (DeployCall manifest) (Client_Deploy kubeClient manifest) w1 of
             (Some err, w2) \<Rightarrow>
               (Some err, logger Warn ''Failed to deploy manifests on target cluster: %s'' [E err] w2)
           | (None, w2) \<Rightarrow> trackProgress env r ctx manifest kubeClient w2))"

text \<open>Lines 86 to 92 of \<open>reconcile\<close>: the pre-install hook, when one is registered.\<close>

definition reconcile_preInstall :: "'w runner \<Rightarrow> Reconciliation \<Rightarrow> clientset \<Rightarrow> 'w world \<Rightarrow> error option \<times> 'w world" where
  "reconcile_preInstall r model clientSet w =
     (case preInstallAction r of
        None \<Rightarrow> (None, w)
      | Some action \<Rightarrow>
          (case invoke (PreInstallCall (Version model) clientSet) (action (Version model) clientSet) w of
             (Some err, w1) \<Rightarrow>
               (Some err, logger Warn ''Pre-installation action of version '%s' failed: %s''
                            [A (Str (Version model)), E err] w1)
           | (None, w1) \<Rightarrow> (None, w1)))"

text \<open>Lines 94 to 106: the default installation, or the registered install action.\<close>

definition reconcile_install :: "'w packages \<Rightarrow> 'w runner \<Rightarrow> 'w Context \<Rightarrow> Reconciliation \<Rightarrow> 'w Client \<Rightarrow> clientset \<Rightarrow> 'w world \<Rightarrow> error option \<times> 'w world" where
  "reconcile_install env r ctx model kubeClient clientSet w =
     (case installAction r of
        None \<Rightarrow>
          (case install env r ctx model kubeClient w of
             (Some err, w1) \<Rightarrow>
               (Some err, logger Warn ''Default-installation of version '%s' failed: %s''
                            [A (Str (Version model)), E err] w1)
           | (None, w1) \<Rightarrow> (None, w1))
      | Some action \<Rightarrow>
          (case invoke (InstallCall (Version model) clientSet) (action (Version model) clientSet) w of
             (Some err, w1) \<Rightarrow>
               (Some err, logger Warn ''Installation action of version '%s' failed: %s''
                            [A (Str (Version model)), E err] w1)
           | (None, w1) \<Rightarrow> (None, w1)))"

text \<open>Lines 108 to 114: the post-install hook, when one is registered.\<close>

definition reconcile_postInstall :: "'w runner \<Rightarrow> Reconciliation \<Rightarrow> clientset \<Rightarrow> 'w world \<Rightarrow> error option \<times> 'w world" where
  "reconcile_postInstall r model clientSet w =
     (case postInstallAction r of
        None \<Rightarrow> (None, w)
      | Some action \<Rightarrow>
          (case invoke (PostInstallCall (Version model) clientSet) (action (Version model) clientSet) w of
             (Some err, w1) \<Rightarrow>
               (Some err, logger Warn ''Post-installation action of version '%s' failed: %s''
                            [A (Str (Version model)), E err] w1)
           | (None, w1) \<Rightarrow> (None, w1)))"

definition reconcile :: "'w packages \<Rightarrow> 'w runner \<Rightarrow> 'w Context \<Rightarrow> Reconciliation \<Rightarrow> 'w world \<Rightarrow> error option \<times> 'w world" where
  "reconcile env r ctx model w =
     (case invoke (NewKubernetesClientCall (Kubeconfig model))
             (kubernetes_NewKubernetesClient env (Kubeconfig model)) w of
        (Inl err, w1) \<Rightarrow> (Some err, w1)
      | (Inr kubeClient, w1) \<Rightarrow>
          (case invoke ClientsetCall (Client_Clientset kubeClient) w1 of
             (Inl err, w2) \<Rightarrow> (Some err, w2)
           | (Inr clientSet, w2) \<Rightarrow>
               (case reconcile_preInstall r model clientSet w2 of
                  (Some err, w3) \<Rightarrow> (Some err, w3)
                | (None, w3) \<Rightarrow>
                    (case reconcile_install env r ctx model kubeClient clientSet w3 of
                       (Some err, w4) \<Rightarrow> (Some err, w4)
                     | (None, w4) \<Rightarrow>
                         (case reconcile_postInstall r model clientSet w4 of
                            (Some err, w5) \<Rightarrow> (Some err, w5)
                          | (None, w5) \<Rightarrow> (None, w5))))))"

subsection \<open>The retry loop and \<open>Run\<close>\<close>

text \<open>
  \<open>uint(r.maxRetries)\<close>: the conversion of a 64-bit \<open>int\<close> to \<open>uint\<close> wraps a negative number
  around.
\<close>

definition go_uint :: "int \<Rightarrow> nat" where
  "go_uint i = nat (i mod 2 ^ 64)"

text \<open>
  Modelled from the spec: \<open>retry.Do\<close> with its options \<open>Attempts\<close>, \<open>Delay\<close>,
  \<open>LastErrorOnly(false)\<close> and \<open>Context\<close> belongs to the library \<open>github.com/avast/retry-go\<close>,
  which is not under \<open>src/\<close>. Section 4.5 of the spec: the body is run up to \<open>attempts\<close> times
  with a fixed delay between attempts, and cancellation aborts the loop; section 9: the
  capability is a function of the attempts, the delay, the cancel signal and the body.

  \<open>retry_loop\<close> returns the result of each attempt that it ran, in order, the error of
  the context when the wait between two attempts was cancelled, and the world it leaves.
  An attempt that returns \<open>nil\<close> ends the loop; after the last permitted attempt there is no
  wait.
\<close>

fun retry_loop :: "('w world \<Rightarrow> error option \<times> 'w world) \<Rightarrow> Duration \<Rightarrow> 'w Context \<Rightarrow> nat \<Rightarrow> 'w world \<Rightarrow> error option list \<times> error option \<times> 'w world" where
  "retry_loop body delay ctx 0 w = ([], None, w)"
| "retry_loop body delay ctx (Suc k) w =
     (case body w of
        (None, w1) \<Rightarrow> ([None], None, w1)
      | (Some err, w1) \<Rightarrow>
          (if k = 0 then ([Some err], None, w1)
           else (case invoke (WaitCall delay) (Context_Wait ctx delay) w1 of
                   (Some cancelled, w2) \<Rightarrow> ([Some err], Some cancelled, w2)
                 | (None, w2) \<Rightarrow>
                     (case retry_loop body delay ctx k w2 of
                        (results, stopped, w3) \<Rightarrow> (Some err # results, stopped, w3)))))"

text \<open>
  The attempts that \<open>retry.Do\<close> runs: none when the context is cancelled before the first
  attempt.
\<close>

definition retry_attempts :: "('w world \<Rightarrow> error option \<times> 'w world) \<Rightarrow> nat \<Rightarrow> Duration \<Rightarrow> 'w Context \<Rightarrow> 'w world \<Rightarrow> error option list \<times> error option \<times> 'w world" where
  "retry_attempts body attempts delay ctx w =
     (case Context_Err ctx (ext w) of
        Some cancelled \<Rightarrow> ([], Some cancelled, w)
      | None \<Rightarrow> retry_loop body delay ctx attempts w)"

text \<open>
  The error that \<open>retry.Do\<close> returns: \<open>nil\<close> when an attempt succeeded, the error of the context
  when the loop was cancelled, and otherwise the errors of all attempts.
\<close>

definition retry_Do :: "('w world \<Rightarrow> error option \<times> 'w world) \<Rightarrow> nat \<Rightarrow> Duration \<Rightarrow> 'w Context \<Rightarrow> 'w world \<Rightarrow> error option \<times> 'w world" where
  "retry_Do body attempts delay ctx w =
     (case retry_attempts body attempts delay ctx w of
        (results, Some cancelled, w1) \<Rightarrow> (Some cancelled, w1)
      | (results, None, w1) \<Rightarrow>
          (if None \<in> set results then (None, w1)
           else (Some (RetryError (List.map_filter (\<lambda>x. x) results)), w1)))"

text \<open>The closure \<open>retryable\<close> of \<open>Run\<close> (lines 32 to 45): one attempt.\<close>

definition retryable :: "'w packages \<Rightarrow> 'w runner \<Rightarrow> 'w Context \<Rightarrow> Reconciliation \<Rightarrow> 'w Updater \<Rightarrow> 'w world \<Rightarrow> error option \<times> 'w world" where
  "retryable env r ctx model statusUpdater w =
     (case invoke RunningCall (Updater_Running statusUpdater) w of
        (Some err, w1) \<Rightarrow> (Some err, w1)
      | (None, w1) \<Rightarrow>
          (case reconcile env r ctx model w1 of
             (Some err, w2) \<Rightarrow>
               (case invoke FailedCall (Updater_Failed statusUpdater) w2 of
                  (Some err2, w3) \<Rightarrow> (Some err2, w3)
                | (None, w3) \<Rightarrow> (Some err, w3))
           | (None, w2) \<Rightarrow> (None, w2)))"

definition Run :: "'w packages \<Rightarrow> 'w runner \<Rightarrow> 'w Context \<Rightarrow> Reconciliation \<Rightarrow> Handler \<Rightarrow> 'w world \<Rightarrow> error option \<times> 'w world" where
  "Run env r ctx model callback w =
     (case invoke NewStatusUpdaterCall
             (status_NewStatusUpdater env ctx callback (debug r) (statusUpdaterConfig r)) w of
        (Inl err, w0) \<Rightarrow> (Some err, w0)
      | (Inr statusUpdater, w0) \<Rightarrow>
          (case retry_Do (retryable env r ctx model statusUpdater)
                  (go_uint (maxRetries r)) (retryDelay r) ctx w0 of
             (None, w1) \<Rightarrow>
               (let w2 = logger Info ''Reconciliation of component '%s' for version '%s' finished successfully''
                           [A (Str (Component model)), A (Str (Version model))] w1
                in (case invoke SuccessCall (Updater_Success statusUpdater) w2 of
                      (Some err, w3) \<Rightarrow> (Some err, w3)
                    | (None, w3) \<Rightarrow> (None, w3)))
           | (Some err, w1) \<Rightarrow>
               (let w2 = logger Warn ''Retryable reconciliation of component '%s' for version '%s' failed consistently: giving up''
                           [A (Str (Component model)), A (Str (Version model))] w1
                in (case invoke ErrorCall (Updater_Error statusUpdater) w2 of
                      (Some err2, w3) \<Rightarrow> (Some err2, w3)
                    | (None, w3) \<Rightarrow> (Some err, w3)))))"


section \<open>The cluster status transition (\<open>src/unnamed/part_000\<close>)\<close>

text \<open>
  \<open>reconciliation.Repository\<close> and \<open>cluster.Inventory\<close>: the methods that the sources call.
  A Go pair \<open>(value, error)\<close> is a sum, the value being read only when the error is \<open>nil\<close>.
  \<open>Inventory.UpdateStatus\<close> is the one call whose value the sources read next to a non-nil
  error (line 94 of \<open>FinishReconciliation\<close>): its error comes with the state pointer that
  was returned, \<open>None\<close> for \<open>nil\<close>.
\<close>

record 'w Repository =
  Repository_CreateReconciliation :: "State \<Rightarrow> string list \<Rightarrow> 'w \<Rightarrow> (error + ReconciliationEntity) \<times> 'w"
  Repository_GetReconciliation :: "string \<Rightarrow> 'w \<Rightarrow> (error + ReconciliationEntity) \<times> 'w"
  Repository_FinishReconciliation :: "string \<Rightarrow> ClusterStatusEntity \<Rightarrow> 'w \<Rightarrow> error option \<times> 'w"

record 'w Inventory =
  Inventory_Get :: "string \<Rightarrow> int \<Rightarrow> 'w \<Rightarrow> (error + State) \<times> 'w"
  Inventory_GetLatest :: "string \<Rightarrow> 'w \<Rightarrow> (error + State) \<times> 'w"
  Inventory_UpdateStatus :: "State \<Rightarrow> Status \<Rightarrow> 'w \<Rightarrow> (error \<times> State option + State) \<times> 'w"
  Inventory_Delete :: "string \<Rightarrow> 'w \<Rightarrow> error option \<times> 'w"

text \<open>
  \<open>ClusterStatusTransition\<close>. Its connection \<open>conn\<close> is the handle of the store, which is the
  external state \<open>'w\<close>; its logger writes to \<open>logs\<close>.
\<close>

record 'w ClusterStatusTransition =
  inventory :: "'w Inventory"
  reconRepo :: "'w Repository"

text \<open>
  Modelled from the spec: \<open>reconciliation.IsDuplicateClusterReconciliationError\<close> is missing;
  section 7 of the spec names the error kind \<open>DuplicateClusterReconciliation\<close>.
\<close>

fun IsDuplicateClusterReconciliationError :: "error \<Rightarrow> bool" where
  "IsDuplicateClusterReconciliationError (DuplicateClusterReconciliationError msg) = True"
| "IsDuplicateClusterReconciliationError err = False"

text \<open>
  Modelled from the spec: \<open>db.Transaction\<close> (package \<open>pkg/db\<close>) is missing. Sections 4.3 and
  6.3 of the spec: the operations run inside one ACID transaction; when they return an error
  the transaction is rolled back and the caller sees that error, otherwise it is committed.
  A rollback restores the store; the calls that were made and the log entries remain.
\<close>

definition Transaction :: "('w world \<Rightarrow> error option \<times> 'w world) \<Rightarrow> 'w world \<Rightarrow> error option \<times> 'w world" where
  "Transaction dbOps w =
     (case dbOps w of
        (Some err, w1) \<Rightarrow> (Some err, w1\<lparr>ext := ext w\<rparr>)
      | (None, w1) \<Rightarrow> (None, w1))"

text \<open>The closure \<open>dbOp\<close> of \<open>StartReconciliation\<close> (lines 41 to 67).\<close>

definition StartReconciliation_dbOp :: "'w ClusterStatusTransition \<Rightarrow> State \<Rightarrow> string list \<Rightarrow> 'w world \<Rightarrow> error option \<times> 'w world" where
  "StartReconciliation_dbOp t clusterState preComponents w =
     (case invoke (CreateReconciliationCall clusterState preComponents)
             (Repository_CreateReconciliation (reconRepo t) clusterState preComponents) w of
        (Inl err, w1) \<Rightarrow>
          (if IsDuplicateClusterReconciliationError err
           then (Some err,
                 logger Info ''Cluster transition tried to add cluster '%s' to reconciliation queue but cluster was already enqueued''
                   [A (Str (Cluster (State_Cluster clusterState)))] w1)
           else (Some err,
                 logger ErrorLevel ''Cluster transition failed to add cluster '%s' to reconciliation queue: %s''
                   [A (Str (Cluster (State_Cluster clusterState))), E err] w1))
      | (Inr reconEntity, w1) \<Rightarrow>
          (case invoke (InventoryUpdateStatusCall clusterState Reconciling)
                  (Inventory_UpdateStatus (inventory t) clusterState Reconciling) w1 of
             (Inr newClusterState, w2) \<Rightarrow>
               (let w3 = logger Info ''Cluster transition finished: cluster '%s' added to reconciliation queue (reconciliation entity: %s)''
                           [A (Str (Cluster (State_Cluster clusterState))), A (ReconArg reconEntity)] w2;
                    w4 = logger Debug ''Cluster transition set status of cluster '%s' to '%s' (cluster status entity: %s)''
                           [A (Str (Cluster (State_Cluster clusterState))), A (StatusArg Reconciling),
                            A (StatusEntityArg (State_Status newClusterState))] w3
                in (None, w4))
           | (Inl (err, returned), w2) \<Rightarrow>
               (Some err,
                logger ErrorLevel ''Cluster transition failed to update status of cluster '%s' to '%s': %s''
                  [A (Str (Cluster (State_Cluster clusterState))), A (StatusArg Reconciling), E err] w2)))"

definition StartReconciliation :: "'w ClusterStatusTransition \<Rightarrow> State \<Rightarrow> string list \<Rightarrow> 'w world \<Rightarrow> error option \<times> 'w world" where
  "StartReconciliation t clusterState preComponents w =
     Transaction (StartReconciliation_dbOp t clusterState preComponents) w"

text \<open>
  The closure \<open>dbOp\<close> of \<open>FinishReconciliation\<close> (lines 72 to 107). At line 92 the variable
  \<open>clusterState\<close> is overwritten with the state that \<open>UpdateStatus\<close> returns, and line 95 reads
  its cluster name for the log: a \<open>nil\<close> state next to the error is a nil dereference.
\<close>

definition FinishReconciliation_dbOp :: "'w ClusterStatusTransition \<Rightarrow> string \<Rightarrow> Status \<Rightarrow> 'w world \<Rightarrow> error option \<times> 'w world" where
  "FinishReconciliation_dbOp t schedulingID status w =
     (case invoke (GetReconciliationCall schedulingID)
             (Repository_GetReconciliation (reconRepo t) schedulingID) w of
        (Inl err, w1) \<Rightarrow>
          (Some err,
           logger ErrorLevel ''Cluster transition failed to retrieve reconciliation entity with schedulingID '%s': %s''
             [A (Str schedulingID), E err] w1)
      | (Inr reconEntity, w1) \<Rightarrow>
          (if Finished reconEntity
           then (Some (Errorf ''reconciliation '%s' is already finished'' [ReconArg reconEntity]),
                 logger Info ''Cluster transition tried to finish reconciliation '%s' but it is no longer marked to be in progress (maybe finished by parallel process in between)''
                   [A (ReconArg reconEntity)] w1)
           else
             (case invoke (InventoryGetCall (ReconCluster reconEntity) (ReconClusterConfig reconEntity))
                     (Inventory_Get (inventory t) (ReconCluster reconEntity) (ReconClusterConfig reconEntity)) w1 of
                (Inl err, w2) \<Rightarrow>
                  (Some err,
                   logger ErrorLevel ''Cluster transition failed to retrieve cluster state for cluster '%s' (configVersion: %d): %s''
                     [A (Str (ReconCluster reconEntity)), A (Num (ReconClusterConfig reconEntity)), E err] w2)
              | (Inr clusterState, w2) \<Rightarrow>
                  (case invoke (InventoryUpdateStatusCall clusterState status)
                          (Inventory_UpdateStatus (inventory t) clusterState status) w2 of
                     (Inl (err, None), w3) \<Rightarrow> (Some (Panic ''nil pointer dereference''), w3)
                   | (Inl (err, Some returned), w3) \<Rightarrow>
                       (Some err,
                        logger ErrorLevel ''Cluster transition failed to update status of cluster '%s' to '%s': %s''
                          [A (Str (Cluster (State_Cluster returned))), A (StatusArg status), E err] w3)
                   | (Inr updated, w3) \<Rightarrow>
                       (case invoke (FinishReconciliationCall schedulingID (State_Status updated))
                               (Repository_FinishReconciliation (reconRepo t) schedulingID (State_Status updated)) w3 of
                          (None, w4) \<Rightarrow>
                            (None,
                             logger Debug (''Cluster transition finished reconciliation of cluster '%s' (schedulingID '%s'): new cluster status is '%s'' @ quote)
                               [A (Str (Cluster (State_Cluster updated))), A (Str schedulingID),
                                A (StatusArg (StatusOf (State_Status updated)))] w4)
                        | (Some err, w4) \<Rightarrow>
                            (Some err,
                             logger ErrorLevel ''Cluster transition failed to finish reconciliation with schedulingID '%s' of cluster '%s': %s''
                               [A (Str schedulingID), A (Str (Cluster (State_Cluster updated))), E err] w4))))))"

definition FinishReconciliation :: "'w ClusterStatusTransition \<Rightarrow> string \<Rightarrow> Status \<Rightarrow> 'w world \<Rightarrow> error option \<times> 'w world" where
  "FinishReconciliation t schedulingID status w =
     Transaction (FinishReconciliation_dbOp t schedulingID status) w"

section \<open>The REST handlers (\<open>src/cmd/service/start/cmd.go\<close>)\<close>

text \<open>
  The handlers \<open>get\<close> and \<open>delete\<close> with the helpers they call. A request is the map of its
  route variables (\<open>mux.Vars(r)\<close>).
\<close>

record Request =
  Vars :: "string \<rightharpoonup> string"

text \<open>
  What a handler writes to its \<open>http.ResponseWriter\<close>. \<open>ErrorText code err\<close> is the text that
  \<open>sendError\<close> formats from \<open>http.StatusText(code)\<close> and \<open>err.Error()\<close>; \<open>JsonText\<close> is the
  JSON encoding of a payload.
\<close>

datatype chunk = ErrorText nat error | JsonText "(string \<times> gvalue) list"

text \<open>
  \<open>http.ResponseWriter\<close> of the Go standard library. \<open>WrittenStatus\<close> is the status code of
  the header once it has been written, \<open>WriteFailure\<close> the error that a write to the
  connection returns (\<open>None\<close> for a healthy connection).
\<close>

record ResponseWriter =
  Header :: "string \<rightharpoonup> string"
  WrittenStatus :: "nat option"
  Body :: "chunk list"
  WriteFailure :: "error option"

definition StatusOK :: nat where
  "StatusOK = 200"

definition StatusNoContent :: nat where
  "StatusNoContent = 204"

definition StatusBadRequest :: nat where
  "StatusBadRequest = 400"

definition StatusNotFound :: nat where
  "StatusNotFound = 404"

definition StatusInternalServerError :: nat where
  "StatusInternalServerError = 500"

text \<open>\<open>WriteHeader\<close>: only the first call writes the header.\<close>

definition WriteHeader :: "nat \<Rightarrow> ResponseWriter \<Rightarrow> ResponseWriter" where
  "WriteHeader code rw = (if WrittenStatus rw = None then rw\<lparr>WrittenStatus := Some code\<rparr> else rw)"

text \<open>\<open>Write\<close>: a write before any \<open>WriteHeader\<close> writes the header with status 200 first.\<close>

definition Write :: "chunk \<Rightarrow> ResponseWriter \<Rightarrow> error option \<times> ResponseWriter" where
  "Write c rw =
     (let rw1 = WriteHeader StatusOK rw
      in (case WriteFailure rw1 of
            Some err \<Rightarrow> (Some err, rw1)
          | None \<Rightarrow> (None, rw1\<lparr>Body := Body rw1 @ [c]\<rparr>)))"

text \<open>
  The status code that the client receives: the server of \<open>net/http\<close> answers with status 200
  when the handler returns without having written a header.
\<close>

definition responseStatus :: "ResponseWriter \<Rightarrow> nat" where
  "responseStatus rw = (case WrittenStatus rw of None \<Rightarrow> StatusOK | Some code \<Rightarrow> code)"

text \<open>\<open>http.Error\<close>: two headers, the status code, the text.\<close>

definition http_Error :: "ResponseWriter \<Rightarrow> chunk \<Rightarrow> nat \<Rightarrow> ResponseWriter" where
  "http_Error rw text code =
     (let rw1 = rw\<lparr>Header := (Header rw)(''Content-Type'' \<mapsto> ''text/plain; charset=utf-8'')\<rparr>;
          rw2 = rw1\<lparr>Header := (Header rw1)(''X-Content-Type-Options'' \<mapsto> ''nosniff'')\<rparr>;
          rw3 = WriteHeader code rw2
      in snd (Write text rw3))"

text \<open>\<open>json.NewEncoder(w).Encode(payload)\<close>: a payload of strings and integers always encodes;
  the write can fail.\<close>

definition json_Encode :: "ResponseWriter \<Rightarrow> (string \<times> gvalue) list \<Rightarrow> error option \<times> ResponseWriter" where
  "json_Encode rw payload = Write (JsonText payload) rw"

text \<open>
  \<open>strconv.ParseInt(s, 10, 64)\<close> of the Go standard library: an optional sign, at least one
  decimal digit and nothing else, and a value that fits 64 bits.
\<close>

definition isDigit :: "char \<Rightarrow> bool" where
  "isDigit c = (48 \<le> (of_char c :: nat) \<and> (of_char c :: nat) \<le> 57)"

fun digitsValue :: "string \<Rightarrow> int \<Rightarrow> int" where
  "digitsValue [] n = n"
| "digitsValue (c # cs) n = digitsValue cs (n * 10 + (of_char c - 48))"

definition strconv_ParseInt :: "string \<Rightarrow> error + int" where
  "strconv_ParseInt s =
     (let neg = (s \<noteq> [] \<and> hd s = CHR ''-'');
          digits = (if s \<noteq> [] \<and> (hd s = CHR ''+'' \<or> hd s = CHR ''-'') then tl s else s)
      in if digits = [] \<or> \<not> list_all isDigit digits then Inl (GenericError ''invalid syntax'')
         else (let n = digitsValue digits 0;
                   v = (if neg then - n else n)
               in if v < - (2 ^ 63) \<or> 2 ^ 63 - 1 < v then Inl (GenericError ''value out of range'')
                  else Inr v))"

text \<open>
  Modelled from the spec: \<open>repository.IsNotFoundError\<close> is missing; section 7 of the spec names
  the error kind \<open>NotFound\<close>. The predicate is false of \<open>nil\<close>, so the model applies it to
  errors only.
\<close>

fun IsNotFoundError :: "error \<Rightarrow> bool" where
  "IsNotFoundError (EntityNotFoundError msg) = True"
| "IsNotFoundError err = False"

text \<open>\<open>Options\<close>: the handlers read the inventory (\<open>o.Inventory()\<close>).\<close>

record 'w Options =
  Options_Inventory :: "'w Inventory"

record param =
  params :: "string \<rightharpoonup> string"

definition newParam :: "Request \<Rightarrow> param" where
  "newParam r = \<lparr>params = Vars r\<rparr>"

definition param_string :: "param \<Rightarrow> string \<Rightarrow> error + string" where
  "param_string p name =
     (case params p name of
        None \<Rightarrow> Inl (Errorf ''Parameter '%s' undefined'' [Str name])
      | Some result \<Rightarrow> Inr result)"

definition param_int64 :: "param \<Rightarrow> string \<Rightarrow> error + int" where
  "param_int64 p name =
     (case param_string p name of
        Inl err \<Rightarrow> Inl err
      | Inr strResult \<Rightarrow> strconv_ParseInt strResult)"

definition responsePayload :: "State \<Rightarrow> (string \<times> gvalue) list" where
  "responsePayload clusterState =
     [(''cluster'', Str (Cluster (State_Cluster clusterState))),
      (''clusterVersion'', Num (ClusterVersion (State_Cluster clusterState))),
      (''configurationVersion'', Num (ConfigurationVersion (State_Configuration clusterState))),
      (''status'', StatusArg (StatusOf (State_Status clusterState)))]"

definition sendError :: "ResponseWriter \<Rightarrow> nat \<Rightarrow> error \<Rightarrow> ResponseWriter" where
  "sendError rw httpCode err = http_Error rw (ErrorText httpCode err) httpCode"

definition sendResponse :: "ResponseWriter \<Rightarrow> (string \<times> gvalue) list \<Rightarrow> ResponseWriter" where
  "sendResponse rw payload =
     (let rw1 = rw\<lparr>Header := (Header rw)(''Content-Type'' \<mapsto> ''application/json'')\<rparr>
      in (case json_Encode rw1 payload of
            (Some err, rw2) \<Rightarrow>
              sendError rw2 StatusInternalServerError
                (Wrap err ''Failed to encode response payload to JSON'' [])
          | (None, rw2) \<Rightarrow> rw2))"

definition get :: "'w Options \<Rightarrow> Request \<Rightarrow> ResponseWriter \<times> 'w world \<Rightarrow> ResponseWriter \<times> 'w world" where
  "get opts r st =
     (case st of (rw, w) \<Rightarrow>
        (case param_string (newParam r) ''cluster'' of
           Inl err \<Rightarrow> (sendError rw StatusBadRequest err, w)
         | Inr cluster \<Rightarrow>
             (case param_int64 (newParam r) ''configVersion'' of
                Inl err \<Rightarrow> (sendError rw StatusBadRequest err, w)
              | Inr configVersion \<Rightarrow>
                  (case invoke (InventoryGetCall cluster configVersion)
                          (Inventory_Get (Options_Inventory opts) cluster configVersion) w of
                     (Inl err, w1) \<Rightarrow>
                       (sendError rw StatusInternalServerError
                          (Wrap err ''Cloud not retrieve cluster state'' []), w1)
                   | (Inr clusterState, w1) \<Rightarrow>
                       (sendResponse rw (responsePayload clusterState), w1)))))"

text \<open>Lines 232 to 235 of \<open>delete\<close>: the call of \<open>Inventory.Delete\<close>.\<close>

definition delete_cluster :: "'w Options \<Rightarrow> string \<Rightarrow> ResponseWriter \<times> 'w world \<Rightarrow> ResponseWriter \<times> 'w world" where
  "delete_cluster opts cluster st =
     (case st of (rw, w) \<Rightarrow>
        (case invoke (InventoryDeleteCall cluster) (Inventory_Delete (Options_Inventory opts) cluster) w of
           (Some err, w1) \<Rightarrow>
             (sendError rw StatusInternalServerError
                (Wrap err (''Failed to delete cluster '%s'' @ quote) [Str cluster]), w1)
         | (None, w1) \<Rightarrow> (rw, w1)))"

text \<open>
  \<open>delete\<close>. The test at line 228 looks only at the kind of the error of \<open>GetLatest\<close>: with any
  other error, and with none, the handler goes on to \<open>Inventory.Delete\<close>. On success the
  handler returns without writing to the response.
\<close>

definition delete :: "'w Options \<Rightarrow> Request \<Rightarrow> ResponseWriter \<times> 'w world \<Rightarrow> ResponseWriter \<times> 'w world" where
  "delete opts r st =
     (case st of (rw, w) \<Rightarrow>
        (case param_string (newParam r) ''cluster'' of
           Inl err \<Rightarrow> (sendError rw StatusBadRequest err, w)
         | Inr cluster \<Rightarrow>
             (case invoke (InventoryGetLatestCall cluster)
                     (Inventory_GetLatest (Options_Inventory opts) cluster) w of
                (Inl err, w1) \<Rightarrow>
                  (if IsNotFoundError err
                   then (sendError rw StatusNotFound
                           (Wrap err ''Deletion impossible: cluster '%s' not found'' [Str cluster]), w1)
                   else delete_cluster opts cluster (rw, w1))
              | (Inr latest, w1) \<Rightarrow> delete_cluster opts cluster (rw, w1))))"

section \<open>Sample collaborators\<close>

text \<open>
  Concrete collaborators at which the theorems below are instantiated. They are not part of
  the sources.

  For the runner the external state is a counter of the runs of the pre-install hook: the
  hook fails on its first run and succeeds afterwards.
\<close>

definition sample_updater :: "nat Updater" where
  "sample_updater =
     \<lparr>Updater_Running = (\<lambda>s. (None, s)), Updater_Failed = (\<lambda>s. (None, s)),
      Updater_Success = (\<lambda>s. (None, s)), Updater_Error = (\<lambda>s. (None, s))\<rparr>"

definition sample_updater_unreachable :: "nat Updater" where
  "sample_updater_unreachable =
     \<lparr>Updater_Running = (\<lambda>s. (None, s)), Updater_Failed = (\<lambda>s. (None, s)),
      Updater_Success = (\<lambda>s. (Some (GenericError ''callback failed''), s)),
      Updater_Error = (\<lambda>s. (Some (GenericError ''callback failed''), s))\<rparr>"

definition sample_updater_not_running :: "nat Updater" where
  "sample_updater_not_running =
     \<lparr>Updater_Running = (\<lambda>s. (Some (GenericError ''callback failed''), s)),
      Updater_Failed = (\<lambda>s. (None, s)),
      Updater_Success = (\<lambda>s. (None, s)), Updater_Error = (\<lambda>s. (None, s))\<rparr>"

definition sample_resources :: "Resource list" where
  "sample_resources =
     [\<lparr>Kind = ''Deployment'', ResourceName = ''istiod'', ResourceNamespace = ''istio-system''\<rparr>,
      \<lparr>Kind = ''ConfigMap'', ResourceName = ''istio'', ResourceNamespace = ''istio-system''\<rparr>,
      \<lparr>Kind = ''Pod'', ResourceName = ''ingress'', ResourceNamespace = ''istio-system''\<rparr>]"

definition sample_client :: "nat Client" where
  "sample_client =
     \<lparr>Client_Clientset = (\<lambda>s. (Inr (ClientsetHandle 1), s)),
      Client_Deploy = (\<lambda>manifest s. (None, s)),
      Client_DeployedResources = (\<lambda>manifest s. (Inr sample_resources, s))\<rparr>"

definition sample_tracker :: "nat Tracker" where
  "sample_tracker =
     \<lparr>Tracker_AddResource = (\<lambda>watchable namespace name s. s),
      Tracker_Watch = (\<lambda>s. (None, s))\<rparr>"

definition sample_watchable :: "string \<Rightarrow> error + WatchableResource" where
  "sample_watchable kind =
     (if kind = ''Deployment'' then Inr ''deployment''
      else if kind = ''Pod'' then Inr ''pod''
      else Inl (GenericError ''not watchable''))"

definition sample_packages :: "nat Updater \<Rightarrow> nat packages" where
  "sample_packages updater =
     \<lparr>status_NewStatusUpdater = (\<lambda>ctx callback dbg config s. (Inr updater, s)),
      kubernetes_NewKubernetesClient = (\<lambda>kubeconfig s. (Inr sample_client, s)),
      progress_NewProgressTracker = (\<lambda>ctx clientSet dbg config s. (Inr sample_tracker, s)),
      progress_NewWatchableResource = sample_watchable,
      components_CRD = ''crd''\<rparr>"

definition sample_manifests :: "Manifest list" where
  "sample_manifests =
     [\<lparr>Type = ''crd'', Name = ''gateways'', ManifestText = ''kind: CustomResourceDefinition''\<rparr>,
      \<lparr>Type = ''helmChart'', Name = ''istio'', ManifestText = ''kind: Deployment''\<rparr>]"

definition sample_hook :: "nat Action" where
  "sample_hook version clientSet s =
     (if s = 0 then (Some (GenericError ''hook failed''), Suc s) else (None, Suc s))"

definition sample_runner :: "int \<Rightarrow> nat runner" where
  "sample_runner retries =
     \<lparr>debug = False, maxRetries = retries, retryDelay = 5,
      statusUpdaterConfig = \<lparr>Interval = 30, MaxRetries = 5, RetryDelay = 1\<rparr>,
      progressTrackerConfig = \<lparr>Timeout = 600, TrackerInterval = 5\<rparr>,
      preInstallAction = Some sample_hook, installAction = None, postInstallAction = None,
      chartProvider = (\<lambda>components installCRD s. (Inr sample_manifests, s))\<rparr>"

definition sample_context :: "nat Context" where
  "sample_context = \<lparr>Context_Err = (\<lambda>s. None), Context_Wait = (\<lambda>delay s. (None, s))\<rparr>"

definition sample_model :: Reconciliation where
  "sample_model =
     \<lparr>Component = ''istio'', Namespace = ''istio-system'', Version = ''1.0'', Profile = ''production'',
      Kubeconfig = ''kubeconfig'', InstallCRD = False, Configuration = []\<rparr>"

definition sample_world :: "'w \<Rightarrow> 'w world" where
  "sample_world s = \<lparr>ext = s, calls = [], logs = []\<rparr>"

text \<open>
  For the status transition and the handlers the external state is a store: the list of the
  reconciliation entities and the status of each cluster. Every cluster has the one
  configuration version 1. A deleted cluster accepts no new status.
\<close>

type_synonym store = "ReconciliationEntity list \<times> (string \<times> Status) list"

definition sample_state :: "string \<Rightarrow> Status \<Rightarrow> State" where
  "sample_state cluster status =
     \<lparr>State_Cluster = \<lparr>Cluster = cluster, ClusterVersion = 1\<rparr>,
      State_Configuration = \<lparr>ConfigurationVersion = 1\<rparr>,
      State_Status = \<lparr>StatusOf = status\<rparr>\<rparr>"

definition sample_entity :: "string \<Rightarrow> bool \<Rightarrow> ReconciliationEntity" where
  "sample_entity cluster finished =
     \<lparr>SchedulingID = ''id-'' @ cluster, ReconCluster = cluster, ReconClusterConfig = 1,
      Finished = finished\<rparr>"

definition sample_repository :: "store Repository" where
  "sample_repository =
     \<lparr>Repository_CreateReconciliation = (\<lambda>state preComponents (recons, statuses).
        if list_ex (\<lambda>e. ReconCluster e = Cluster (State_Cluster state) \<and> \<not> Finished e) recons
        then (Inl (DuplicateClusterReconciliationError (Cluster (State_Cluster state))), (recons, statuses))
        else (Inr (sample_entity (Cluster (State_Cluster state)) False),
              (recons @ [sample_entity (Cluster (State_Cluster state)) False], statuses))),
      Repository_GetReconciliation = (\<lambda>schedulingID (recons, statuses).
        case find (\<lambda>e. SchedulingID e = schedulingID) recons of
          None \<Rightarrow> (Inl (EntityNotFoundError schedulingID), (recons, statuses))
        | Some e \<Rightarrow> (Inr e, (recons, statuses))),
      Repository_FinishReconciliation = (\<lambda>schedulingID status (recons, statuses).
        (None, (map (\<lambda>e. if SchedulingID e = schedulingID then e\<lparr>Finished := True\<rparr> else e) recons,
                statuses)))\<rparr>"

definition sample_inventory :: "store Inventory" where
  "sample_inventory =
     \<lparr>Inventory_Get = (\<lambda>cluster configVersion (recons, statuses).
        case map_of statuses cluster of
          None \<Rightarrow> (Inl (EntityNotFoundError cluster), (recons, statuses))
        | Some status \<Rightarrow>
            (if configVersion = 1 then Inr (sample_state cluster status)
             else Inl (EntityNotFoundError cluster), (recons, statuses))),
      Inventory_GetLatest = (\<lambda>cluster (recons, statuses).
        case map_of statuses cluster of
          None \<Rightarrow> (Inl (EntityNotFoundError cluster), (recons, statuses))
        | Some status \<Rightarrow> (Inr (sample_state cluster status), (recons, statuses))),
      Inventory_UpdateStatus = (\<lambda>state status (recons, statuses).
        if map_of statuses (Cluster (State_Cluster state)) = Some Deleted
        then (Inl (GenericError ''invalid transition'', Some state), (recons, statuses))
        else (Inr (state\<lparr>State_Status := \<lparr>StatusOf = status\<rparr>\<rparr>),
              (recons, map (\<lambda>(c, old). if c = Cluster (State_Cluster state) then (c, status) else (c, old))
                         statuses))),
      Inventory_Delete = (\<lambda>cluster (recons, statuses).
        (None, (recons, filter (\<lambda>(c, old). c \<noteq> cluster) statuses)))\<rparr>"

definition sample_transition :: "store ClusterStatusTransition" where
  "sample_transition = \<lparr>inventory = sample_inventory, reconRepo = sample_repository\<rparr>"

definition sample_options :: "store Options" where
  "sample_options = \<lparr>Options_Inventory = sample_inventory\<rparr>"

definition sample_writer :: ResponseWriter where
  "sample_writer = \<lparr>Header = Map.empty, WrittenStatus = None, Body = [], WriteFailure = None\<rparr>"

section \<open>Properties of \<open>renderManifest\<close>\<close>

lemma renderManifest_loop_buffer:
  "fst (renderManifest_loop env model ms (b, w)) =
     b @ concat (map (\<lambda>m. ''---'' @ newline @ ''# Manifest of '' @ Type m @ '' '' @ quote
                            @ Component model @ quote @ newline @ ManifestText m @ newline) ms)"
  by (induction ms arbitrary: b w) (simp_all add: writeManifest_def Let_def)

lemma renderManifest_loop_logs:
  "logs (snd (renderManifest_loop env model ms (b, w))) =
     logs w @ concat (map (\<lambda>m. if \<not> InstallCRD model \<and> Type m = components_CRD env
        then [Log ErrorLevel (''Illegal state detected! No CRDs were requested but chartProvider returned CRD manifest: '%s'' @ quote) [A (Str (Name m))]]
        else []) ms)"
  by (induction ms arbitrary: b w) (simp_all add: writeManifest_def Let_def logger_def)

lemma renderManifest_ok:
  assumes "chartProvider r (newComponentSet model) (InstallCRD model) (ext w) = (Inr manifests, s)"
  shows "renderManifest env r model w =
     (Inr (fst (renderManifest_loop env model manifests ([], logger Debug ''Rendering of component '%s' returned %d manifests''
                      [A (Str (Component model)), A (Num (int (length manifests)))] (w\<lparr>ext := s, calls := calls w @ [ManifestsCall (InstallCRD model)]\<rparr>)))),
      snd (renderManifest_loop env model manifests ([], logger Debug ''Rendering of component '%s' returned %d manifests''
                      [A (Str (Component model)), A (Num (int (length manifests)))] (w\<lparr>ext := s, calls := calls w @ [ManifestsCall (InstallCRD model)]\<rparr>))))"
  using assms by (simp add: renderManifest_def invoke_def Let_def split: prod.splits)

text \<open>
  Claim C5. When \<open>model.InstallCRD\<close> is false and the chart provider returns manifests without
  an error, \<open>renderManifest\<close> returns the rendered text and no error, whatever the types of
  the manifests are; for every manifest of type CRD among them the log holds the entry of
  the illegal state at level error.
\<close>

theorem renderManifest_crd_not_an_error:
  assumes "\<not> InstallCRD model"
    and "chartProvider r (newComponentSet model) (InstallCRD model) (ext w) = (Inr manifests, s)"
  shows "(\<exists>out. fst (renderManifest env r model w) = Inr out) \<and>
         (\<forall>m \<in> set manifests. Type m = components_CRD env \<longrightarrow>
            Log ErrorLevel (''Illegal state detected! No CRDs were requested but chartProvider returned CRD manifest: '%s'' @ quote)
              [A (Str (Name m))] \<in> set (logs (snd (renderManifest env r model w))))"
  using assms(1) by (auto simp add: renderManifest_ok[OF assms(2)] renderManifest_loop_logs)

theorem renderManifest_crd_not_an_error_witness:
  "\<not> InstallCRD sample_model \<and>
   chartProvider (sample_runner 3) (newComponentSet sample_model) (InstallCRD sample_model) (ext (sample_world (0::nat)))
     = (Inr sample_manifests, 0) \<and>
   (\<exists>out. fst (renderManifest (sample_packages sample_updater) (sample_runner 3) sample_model (sample_world (0::nat))) = Inr out) \<and>
   Log ErrorLevel (''Illegal state detected! No CRDs were requested but chartProvider returned CRD manifest: '%s'' @ quote)
     [A (Str ''gateways'')]
     \<in> set (logs (snd (renderManifest (sample_packages sample_updater) (sample_runner 3) sample_model (sample_world (0::nat)))))"
proof -
  have h1: "\<not> InstallCRD sample_model"
    by (simp add: sample_model_def)
  have h2: "chartProvider (sample_runner 3) (newComponentSet sample_model) (InstallCRD sample_model)
             (ext (sample_world (0::nat))) = (Inr sample_manifests, 0)"
    by (simp add: sample_runner_def sample_world_def)
  show ?thesis
    using h1 h2 renderManifest_crd_not_an_error [OF h1 h2, of "sample_packages sample_updater"]
    by (simp add: sample_manifests_def sample_packages_def)
qed

text \<open>
  Claim C9. The text that \<open>renderManifest\<close> returns holds every manifest of the chart provider,
  in the order of the provider: the separator \<open>---\<close>, the comment header with the type and the
  component, the manifest and a line break. Neither the type of a manifest nor
  \<open>model.InstallCRD\<close> takes a manifest out.
\<close>

theorem renderManifest_output:
  assumes "chartProvider r (newComponentSet model) (InstallCRD model) (ext w) = (Inr manifests, s)"
  shows "fst (renderManifest env r model w) =
     Inr (concat (map (\<lambda>m. ''---'' @ newline @ ''# Manifest of '' @ Type m @ '' '' @ quote
                            @ Component model @ quote @ newline @ ManifestText m @ newline) manifests))"
  by (simp add: renderManifest_ok[OF assms] renderManifest_loop_buffer)

theorem renderManifest_output_witness:
  "chartProvider (sample_runner 3) (newComponentSet sample_model) (InstallCRD sample_model) (ext (sample_world (0::nat)))
     = (Inr sample_manifests, 0) \<and>
   \<not> InstallCRD sample_model \<and>
   fst (renderManifest (sample_packages sample_updater) (sample_runner 3) sample_model (sample_world (0::nat))) =
     Inr (''---'' @ newline @ ''# Manifest of crd '' @ quote @ ''istio'' @ quote @ newline
          @ ''kind: CustomResourceDefinition'' @ newline
          @ ''---'' @ newline @ ''# Manifest of helmChart '' @ quote @ ''istio'' @ quote @ newline
          @ ''kind: Deployment'' @ newline)"
proof -
  have h: "chartProvider (sample_runner 3) (newComponentSet sample_model) (InstallCRD sample_model)
             (ext (sample_world (0::nat))) = (Inr sample_manifests, 0)"
    by (simp add: sample_runner_def sample_world_def)
  show ?thesis
    using h renderManifest_output [OF h, of "sample_packages sample_updater"]
    by (simp add: sample_manifests_def sample_model_def)
qed

section \<open>Properties of \<open>reconcile\<close> and \<open>trackProgress\<close>\<close>

text \<open>
  Claim C6. When a pre-install hook is registered and its run returns an error (the client
  and its client set having been created), \<open>reconcile\<close> returns that error, and the calls of
  the attempt are the creation of the client, the client set and the hook: neither the
  default installation, nor a registered install action, nor the post-install hook is
  invoked.
\<close>

theorem reconcile_preInstall_failure:
  assumes "preInstallAction r = Some action"
    and "kubernetes_NewKubernetesClient env (Kubeconfig model) (ext w) = (Inr kubeClient, s1)"
    and "Client_Clientset kubeClient s1 = (Inr clientSet, s2)"
    and "action (Version model) clientSet s2 = (Some err, s3)"
  shows "fst (reconcile env r ctx model w) = Some err \<and>
         calls (snd (reconcile env r ctx model w)) =
           calls w @ [NewKubernetesClientCall (Kubeconfig model), ClientsetCall,
                      PreInstallCall (Version model) clientSet] \<and>
         ext (snd (reconcile env r ctx model w)) = s3"
  using assms
  by (simp add: reconcile_def reconcile_preInstall_def invoke_def logger_def)

theorem reconcile_preInstall_failure_witness:
  "preInstallAction (sample_runner 3) = Some sample_hook \<and>
   kubernetes_NewKubernetesClient (sample_packages sample_updater) (Kubeconfig sample_model) (ext (sample_world (0::nat)))
     = (Inr sample_client, 0) \<and>
   Client_Clientset sample_client 0 = (Inr (ClientsetHandle 1), 0) \<and>
   sample_hook (Version sample_model) (ClientsetHandle 1) 0 = (Some (GenericError ''hook failed''), 1) \<and>
   fst (reconcile (sample_packages sample_updater) (sample_runner 3) sample_context sample_model (sample_world (0::nat)))
     = Some (GenericError ''hook failed'') \<and>
   calls (snd (reconcile (sample_packages sample_updater) (sample_runner 3) sample_context sample_model (sample_world (0::nat))))
     = [NewKubernetesClientCall ''kubeconfig'', ClientsetCall, PreInstallCall ''1.0'' (ClientsetHandle 1)]"
proof -
  have h1: "preInstallAction (sample_runner 3) = Some sample_hook"
    by (simp add: sample_runner_def)
  have h2: "kubernetes_NewKubernetesClient (sample_packages sample_updater) (Kubeconfig sample_model)
              (ext (sample_world (0::nat))) = (Inr sample_client, 0)"
    by (simp add: sample_packages_def sample_world_def)
  have h3: "Client_Clientset sample_client 0 = (Inr (ClientsetHandle 1), 0)"
    by (simp add: sample_client_def)
  have h4: "sample_hook (Version sample_model) (ClientsetHandle 1) 0 = (Some (GenericError ''hook failed''), 1)"
    by (simp add: sample_hook_def)
  show ?thesis
    using h1 h2 h3 h4 reconcile_preInstall_failure [OF h1 h2 h3 h4, of sample_context]
    by (simp add: sample_model_def sample_world_def)
qed

text \<open>What the loop of \<open>trackProgress\<close> does to the calls, the external state and the log.\<close>

lemma trackProgress_loop_calls:
  "calls (trackProgress_loop env pt rs w) =
     calls w @ List.map_filter
       (\<lambda>x. case progress_NewWatchableResource env (Kind x) of
               Inl err \<Rightarrow> None
             | Inr watchable \<Rightarrow> Some (AddResourceCall watchable (ResourceNamespace x) (ResourceName x))) rs"
  by (induction rs arbitrary: w)
     (simp_all add: addResource_def invoke_def logger_def List.map_filter_simps split: sum.splits)

lemma trackProgress_loop_ext:
  "ext (trackProgress_loop env pt rs w) =
     fold (\<lambda>x s. case progress_NewWatchableResource env (Kind x) of
               Inl err \<Rightarrow> s
             | Inr watchable \<Rightarrow> Tracker_AddResource pt watchable (ResourceNamespace x) (ResourceName x) s)
          rs (ext w)"
  by (induction rs arbitrary: w)
     (simp_all add: addResource_def invoke_def logger_def split: sum.splits)

lemma trackProgress_loop_logs:
  "logs (trackProgress_loop env pt rs w) =
     logs w @ List.map_filter
       (\<lambda>x. case progress_NewWatchableResource env (Kind x) of
               Inl err \<Rightarrow> Some (Log Debug ''Ignoring non-watchable resource: %s'' [A (ResourceArg x)])
             | Inr watchable \<Rightarrow> None) rs"
  by (induction rs arbitrary: w)
     (simp_all add: addResource_def invoke_def logger_def List.map_filter_simps split: sum.splits)

lemma map_filter_append: "List.map_filter f (xs @ ys) = List.map_filter f xs @ List.map_filter f ys"
  by (simp add: List.map_filter_def)

lemma trackProgress_loop_skip_calls:
  assumes "progress_NewWatchableResource env (Kind x) = Inl e"
  shows "calls (trackProgress_loop env pt (xs @ x # ys) w) = calls (trackProgress_loop env pt (xs @ ys) w)"
  using assms by (simp add: trackProgress_loop_calls map_filter_append List.map_filter_simps)

lemma trackProgress_loop_skip_ext:
  assumes "progress_NewWatchableResource env (Kind x) = Inl e"
  shows "ext (trackProgress_loop env pt (xs @ x # ys) w) = ext (trackProgress_loop env pt (xs @ ys) w)"
  using assms by (simp add: trackProgress_loop_ext)

lemma trackProgress_loop_skip_log:
  assumes "progress_NewWatchableResource env (Kind x) = Inl e"
  shows "Log Debug ''Ignoring non-watchable resource: %s'' [A (ResourceArg x)]
           \<in> set (logs (trackProgress_loop env pt (xs @ x # ys) w))"
  using assms by (simp add: trackProgress_loop_logs map_filter_append List.map_filter_simps)

lemma trackProgress_watch:
  assumes "Client_Clientset kubeClient (ext w) = (Inr clientSet, s1)"
    and "progress_NewProgressTracker env ctx clientSet (debug r) (progressTrackerConfig r) s1 = (Inr pt, s2)"
    and "Client_DeployedResources kubeClient manifest s2 = (Inr resources, s3)"
  shows "trackProgress env r ctx manifest kubeClient w =
           invoke WatchCall (Tracker_Watch pt)
             (logger Debug ''Start watching installation progress'' []
                (trackProgress_loop env pt resources
                   (w\<lparr>ext := s3, calls := calls w @ [ClientsetCall, NewProgressTrackerCall clientSet,
                                                      DeployedResourcesCall manifest]\<rparr>)))"
  using assms by (simp add: trackProgress_def invoke_def Let_def)

text \<open>
  Claim C7. A deployed resource \<open>x\<close> whose kind \<open>progress.NewWatchableResource\<close> rejects is skipped:
  the error that \<open>trackProgress\<close> returns, the external state and the calls to the progress
  tracker are those of the run over the other resources \<open>xs @ ys\<close>, followed by \<open>Watch\<close>; the
  resource leaves only a debug entry in the log.
\<close>

theorem trackProgress_skips_unwatchable:
  assumes "progress_NewWatchableResource env (Kind x) = Inl e"
    and "Client_Clientset kubeClient (ext w) = (Inr clientSet, s1)"
    and "progress_NewProgressTracker env ctx clientSet (debug r) (progressTrackerConfig r) s1 = (Inr pt, s2)"
    and "Client_DeployedResources kubeClient manifest s2 = (Inr (xs @ x # ys), s3)"
  shows "(let others = trackProgress_loop env pt (xs @ ys)
                         (w\<lparr>ext := s3, calls := calls w @ [ClientsetCall, NewProgressTrackerCall clientSet,
                                                            DeployedResourcesCall manifest]\<rparr>);
              result = trackProgress env r ctx manifest kubeClient w
          in fst result = fst (Tracker_Watch pt (ext others)) \<and>
             ext (snd result) = snd (Tracker_Watch pt (ext others)) \<and>
             calls (snd result) = calls others @ [WatchCall] \<and>
             Log Debug ''Ignoring non-watchable resource: %s'' [A (ResourceArg x)] \<in> set (logs (snd result)))"
proof -
  let ?w3 = "w\<lparr>ext := s3, calls := calls w @ [ClientsetCall, NewProgressTrackerCall clientSet,
                                               DeployedResourcesCall manifest]\<rparr>"
  let ?all = "trackProgress_loop env pt (xs @ x # ys) ?w3"
  let ?others = "trackProgress_loop env pt (xs @ ys) ?w3"
  have run: "trackProgress env r ctx manifest kubeClient w =
               invoke WatchCall (Tracker_Watch pt)
                 (logger Debug ''Start watching installation progress'' [] ?all)"
    by (rule trackProgress_watch [OF assms(2) assms(3) assms(4)])
  have e: "ext ?all = ext ?others"
    by (rule trackProgress_loop_skip_ext [OF assms(1)])
  have c: "calls ?all = calls ?others"
    by (rule trackProgress_loop_skip_calls [OF assms(1)])
  have l: "Log Debug ''Ignoring non-watchable resource: %s'' [A (ResourceArg x)] \<in> set (logs ?all)"
    by (rule trackProgress_loop_skip_log [OF assms(1)])
  show ?thesis
    unfolding Let_def run using e c l
    by (simp add: invoke_def logger_def split: prod.splits)
qed

theorem trackProgress_skips_unwatchable_witness:
  "progress_NewWatchableResource (sample_packages sample_updater)
     (Kind \<lparr>Kind = ''ConfigMap'', ResourceName = ''istio'', ResourceNamespace = ''istio-system''\<rparr>)
     = Inl (GenericError ''not watchable'') \<and>
   fst (trackProgress (sample_packages sample_updater) (sample_runner 3) sample_context ''manifest'' sample_client
          (sample_world (0::nat))) = None \<and>
   calls (snd (trackProgress (sample_packages sample_updater) (sample_runner 3) sample_context ''manifest''
                 sample_client (sample_world (0::nat)))) =
     [ClientsetCall, NewProgressTrackerCall (ClientsetHandle 1), DeployedResourcesCall ''manifest'',
      AddResourceCall ''deployment'' ''istio-system'' ''istiod'',
      AddResourceCall ''pod'' ''istio-system'' ''ingress'', WatchCall]"
proof -
  let ?x = "\<lparr>Kind = ''ConfigMap'', ResourceName = ''istio'', ResourceNamespace = ''istio-system''\<rparr>"
  let ?xs = "[\<lparr>Kind = ''Deployment'', ResourceName = ''istiod'', ResourceNamespace = ''istio-system''\<rparr>]"
  let ?ys = "[\<lparr>Kind = ''Pod'', ResourceName = ''ingress'', ResourceNamespace = ''istio-system''\<rparr>]"
  have h1: "progress_NewWatchableResource (sample_packages sample_updater) (Kind ?x)
              = Inl (GenericError ''not watchable'')"
    by (simp add: sample_packages_def sample_watchable_def)
  have h2: "Client_Clientset sample_client (ext (sample_world (0::nat))) = (Inr (ClientsetHandle 1), 0)"
    by (simp add: sample_client_def sample_world_def)
  have h3: "progress_NewProgressTracker (sample_packages sample_updater) sample_context (ClientsetHandle 1)
              (debug (sample_runner 3)) (progressTrackerConfig (sample_runner 3)) 0 = (Inr sample_tracker, 0)"
    by (simp add: sample_packages_def)
  have h4: "Client_DeployedResources sample_client ''manifest'' 0 = (Inr (?xs @ ?x # ?ys), 0)"
    by (simp add: sample_client_def sample_resources_def)
  show ?thesis
    using h1 trackProgress_skips_unwatchable [OF h1 h2 h3 h4]
    by (simp add: Let_def sample_tracker_def sample_world_def sample_packages_def sample_watchable_def
                  addResource_def invoke_def logger_def)
qed

section \<open>Properties of \<open>Run\<close>\<close>






















lemma Run_created:
  assumes "status_NewStatusUpdater env ctx callback (debug r) (statusUpdaterConfig r) (ext w) = (Inr su, s0)"
  shows "Run env r ctx model callback w =
     (case retry_Do (retryable env r ctx model su) (go_uint (maxRetries r)) (retryDelay r) ctx
             (w\<lparr>ext := s0, calls := calls w @ [NewStatusUpdaterCall]\<rparr>) of
        (None, w1) \<Rightarrow>
          (let w2 = logger Info ''Reconciliation of component '%s' for version '%s' finished successfully''
                      [A (Str (Component model)), A (Str (Version model))] w1
           in (case invoke SuccessCall (Updater_Success su) w2 of
                 (Some err, w3) \<Rightarrow> (Some err, w3)
               | (None, w3) \<Rightarrow> (None, w3)))
      | (Some err, w1) \<Rightarrow>
          (let w2 = logger Warn ''Retryable reconciliation of component '%s' for version '%s' failed consistently: giving up''
                      [A (Str (Component model)), A (Str (Version model))] w1
           in (case invoke ErrorCall (Updater_Error su) w2 of
                 (Some err2, w3) \<Rightarrow> (Some err2, w3)
               | (None, w3) \<Rightarrow> (Some err, w3))))"
  using assms by (simp add: Run_def invoke_def)

lemma Run_success:
  assumes "status_NewStatusUpdater env ctx callback (debug r) (statusUpdaterConfig r) (ext w) = (Inr su, s0)"
    and "retry_Do (retryable env r ctx model su) (go_uint (maxRetries r)) (retryDelay r) ctx
           (w\<lparr>ext := s0, calls := calls w @ [NewStatusUpdaterCall]\<rparr>) = (None, w1)"
  shows "calls (snd (Run env r ctx model callback w)) = calls w1 @ [SuccessCall] \<and>
         fst (Run env r ctx model callback w) = fst (Updater_Success su (ext w1))"
  using assms(2)
  by (simp add: Run_created [OF assms(1)] invoke_def logger_def Let_def split_beta split: option.splits)

lemma Run_failure:
  assumes "status_NewStatusUpdater env ctx callback (debug r) (statusUpdaterConfig r) (ext w) = (Inr su, s0)"
    and "retry_Do (retryable env r ctx model su) (go_uint (maxRetries r)) (retryDelay r) ctx
           (w\<lparr>ext := s0, calls := calls w @ [NewStatusUpdaterCall]\<rparr>) = (Some err, w1)"
  shows "calls (snd (Run env r ctx model callback w)) = calls w1 @ [ErrorCall] \<and>
         fst (Run env r ctx model callback w) =
           (case fst (Updater_Error su (ext w1)) of Some err2 \<Rightarrow> Some err2 | None \<Rightarrow> Some err)"
  using assms(2)
  by (simp add: Run_created [OF assms(1)] invoke_def logger_def Let_def split_beta split: option.splits)

lemmas sample_defs = sample_packages_def sample_runner_def sample_context_def sample_model_def
  sample_world_def sample_updater_def sample_updater_unreachable_def sample_updater_not_running_def
  sample_client_def
  sample_tracker_def sample_watchable_def sample_manifests_def sample_hook_def sample_resources_def

lemmas runner_defs = Run_def retry_Do_def retry_attempts_def retryable_def reconcile_def
  reconcile_preInstall_def reconcile_install_def reconcile_postInstall_def install_def
  renderManifest_def writeManifest_def trackProgress_def addResource_def invoke_def logger_def
  go_uint_def newComponentSet_def configMap_def Let_def











text \<open>
  Claim C10. When the retry loop returns \<open>nil\<close> (the reconciliation succeeded) and \<open>Success()\<close>
  returns an error, \<open>Run\<close> returns that error; when the retry loop returns an error (every
  attempt failed) and \<open>Error()\<close> returns an error too, \<open>Run\<close> returns the error of \<open>Error()\<close> in
  place of the error of the loop.
\<close>

theorem Run_returns_callback_error:
  assumes "status_NewStatusUpdater env ctx callback (debug r) (statusUpdaterConfig r) (ext w) = (Inr su, s0)"
  shows "(retry_Do (retryable env r ctx model su) (go_uint (maxRetries r)) (retryDelay r) ctx
            (w\<lparr>ext := s0, calls := calls w @ [NewStatusUpdaterCall]\<rparr>) = (None, v) \<and>
          fst (Updater_Success su (ext v)) = Some cb \<longrightarrow>
            fst (Run env r ctx model callback w) = Some cb) \<and>
         (retry_Do (retryable env r ctx model su) (go_uint (maxRetries r)) (retryDelay r) ctx
            (w\<lparr>ext := s0, calls := calls w @ [NewStatusUpdaterCall]\<rparr>) = (Some err, v) \<and>
          fst (Updater_Error su (ext v)) = Some cb \<longrightarrow>
            fst (Run env r ctx model callback w) = Some cb)"
  using Run_success [OF assms, of model v] Run_failure [OF assms, of model err v]
  by simp

theorem Run_returns_callback_error_witness:
  "status_NewStatusUpdater (sample_packages sample_updater_unreachable) sample_context (CallbackHandler 0)
     (debug (sample_runner 1)) (statusUpdaterConfig (sample_runner 1)) (ext (sample_world (1::nat)))
     = (Inr sample_updater_unreachable, 1) \<and>
   fst (retry_attempts
          (retryable (sample_packages sample_updater_unreachable) (sample_runner 1) sample_context sample_model
             sample_updater_unreachable)
          (go_uint (maxRetries (sample_runner 1))) (retryDelay (sample_runner 1)) sample_context
          ((sample_world (1::nat))\<lparr>ext := 1, calls := calls (sample_world (1::nat)) @ [NewStatusUpdaterCall]\<rparr>))
     = [None] \<and>
   fst (Run (sample_packages sample_updater_unreachable) (sample_runner 1) sample_context sample_model
          (CallbackHandler 0) (sample_world (1::nat))) = Some (GenericError ''callback failed'') \<and>
   fst (retry_Do
          (retryable (sample_packages sample_updater_unreachable) (sample_runner 1) sample_context sample_model
             sample_updater_unreachable)
          (go_uint (maxRetries (sample_runner 1))) (retryDelay (sample_runner 1)) sample_context
          ((sample_world (0::nat))\<lparr>ext := 0, calls := calls (sample_world (0::nat)) @ [NewStatusUpdaterCall]\<rparr>))
     = Some (RetryError [GenericError ''hook failed'']) \<and>
   fst (Run (sample_packages sample_updater_unreachable) (sample_runner 1) sample_context sample_model
          (CallbackHandler 0) (sample_world (0::nat))) = Some (GenericError ''callback failed'')"
proof -
  let ?env = "sample_packages sample_updater_unreachable"
  let ?su = "sample_updater_unreachable"
  let ?body = "retryable ?env (sample_runner 1) sample_context sample_model ?su"
  let ?w1 = "(sample_world (1::nat))\<lparr>ext := 1, calls := calls (sample_world (1::nat)) @ [NewStatusUpdaterCall]\<rparr>"
  let ?w0 = "(sample_world (0::nat))\<lparr>ext := 0, calls := calls (sample_world (0::nat)) @ [NewStatusUpdaterCall]\<rparr>"
  have h1: "status_NewStatusUpdater ?env sample_context (CallbackHandler 0)
             (debug (sample_runner 1)) (statusUpdaterConfig (sample_runner 1)) (ext (sample_world (1::nat)))
             = (Inr ?su, 1)"
    by (simp add: sample_packages_def sample_world_def)
  have h0: "status_NewStatusUpdater ?env sample_context (CallbackHandler 0)
             (debug (sample_runner 1)) (statusUpdaterConfig (sample_runner 1)) (ext (sample_world (0::nat)))
             = (Inr ?su, 0)"
    by (simp add: sample_packages_def sample_world_def)
  have a1: "fst (retry_attempts ?body (go_uint (maxRetries (sample_runner 1))) (retryDelay (sample_runner 1))
                   sample_context ?w1) = [None]"
    by (simp add: sample_defs runner_defs)
  have d1: "fst (retry_Do ?body (go_uint (maxRetries (sample_runner 1))) (retryDelay (sample_runner 1))
                   sample_context ?w1) = None"
    by (simp add: sample_defs runner_defs)
  have d0: "fst (retry_Do ?body (go_uint (maxRetries (sample_runner 1))) (retryDelay (sample_runner 1))
                   sample_context ?w0) = Some (RetryError [GenericError ''hook failed''])"
    by (simp add: sample_defs runner_defs List.map_filter_simps)
  obtain v1 where r1: "retry_Do ?body (go_uint (maxRetries (sample_runner 1))) (retryDelay (sample_runner 1))
                         sample_context ?w1 = (None, v1)"
    using d1 by (cases "retry_Do ?body (go_uint (maxRetries (sample_runner 1))) (retryDelay (sample_runner 1))
                         sample_context ?w1") simp
  obtain v0 where r0: "retry_Do ?body (go_uint (maxRetries (sample_runner 1))) (retryDelay (sample_runner 1))
                         sample_context ?w0 = (Some (RetryError [GenericError ''hook failed'']), v0)"
    using d0 by (cases "retry_Do ?body (go_uint (maxRetries (sample_runner 1))) (retryDelay (sample_runner 1))
                         sample_context ?w0") simp
  have s: "fst (Updater_Success ?su (ext v1)) = Some (GenericError ''callback failed'')"
          "fst (Updater_Error ?su (ext v0)) = Some (GenericError ''callback failed'')"
    by (simp_all add: sample_updater_unreachable_def)
  show ?thesis
    using h1 a1 d0 r1 r0 s
      Run_returns_callback_error [OF h1, where model = sample_model and v = v1
                                       and cb = "GenericError ''callback failed''"]
      Run_returns_callback_error [OF h0, where model = sample_model and v = v0
                                       and cb = "GenericError ''callback failed''"
                                       and err = "RetryError [GenericError ''hook failed'']"]
    by simp
qed

section \<open>Properties of the cluster status transition\<close>

text \<open>What a transaction leaves: the result and the calls of its operations, and their store
  only when they returned no error.\<close>

lemma Transaction_ext:
  "ext (snd (Transaction dbOps w)) =
     (if fst (dbOps w) = None then ext (snd (dbOps w)) else ext w)"
  by (simp add: Transaction_def split_beta split: option.splits)

lemma Transaction_calls:
  "calls (snd (Transaction dbOps w)) = calls (snd (dbOps w))"
  by (simp add: Transaction_def split_beta split: option.splits)

lemma Transaction_result:
  "fst (Transaction dbOps w) = fst (dbOps w)"
  by (simp add: Transaction_def split_beta split: option.splits)

text \<open>
  Claim C1. \<open>StartReconciliation\<close> runs \<open>CreateReconciliation\<close> and then
  \<open>Inventory.UpdateStatus\<close> to \<open>Reconciling\<close> in one transaction. When \<open>CreateReconciliation\<close>
  returns an error, that error is returned, \<open>UpdateStatus\<close> is not called and the store is the
  one before the call. When \<open>UpdateStatus\<close> returns an error, that error is returned and the
  store is the one before the call: the reconciliation entity that was created is not
  persisted. When both succeed, \<open>nil\<close> is returned and the store is the one that the two
  calls left.
\<close>

theorem StartReconciliation_transactional:
  "(Repository_CreateReconciliation (reconRepo t) clusterState preComponents (ext w) = (Inl err, s1) \<longrightarrow>
      fst (StartReconciliation t clusterState preComponents w) = Some err \<and>
      ext (snd (StartReconciliation t clusterState preComponents w)) = ext w \<and>
      calls (snd (StartReconciliation t clusterState preComponents w)) =
        calls w @ [CreateReconciliationCall clusterState preComponents]) \<and>
   (Repository_CreateReconciliation (reconRepo t) clusterState preComponents (ext w) = (Inr reconEntity, s1) \<and>
    Inventory_UpdateStatus (inventory t) clusterState Reconciling s1 = (Inl (err, returned), s2) \<longrightarrow>
      fst (StartReconciliation t clusterState preComponents w) = Some err \<and>
      ext (snd (StartReconciliation t clusterState preComponents w)) = ext w \<and>
      calls (snd (StartReconciliation t clusterState preComponents w)) =
        calls w @ [CreateReconciliationCall clusterState preComponents,
                   InventoryUpdateStatusCall clusterState Reconciling]) \<and>
   (Repository_CreateReconciliation (reconRepo t) clusterState preComponents (ext w) = (Inr reconEntity, s1) \<and>
    Inventory_UpdateStatus (inventory t) clusterState Reconciling s1 = (Inr newClusterState, s2) \<longrightarrow>
      fst (StartReconciliation t clusterState preComponents w) = None \<and>
      ext (snd (StartReconciliation t clusterState preComponents w)) = s2 \<and>
      calls (snd (StartReconciliation t clusterState preComponents w)) =
        calls w @ [CreateReconciliationCall clusterState preComponents,
                   InventoryUpdateStatusCall clusterState Reconciling])"
  by (simp add: StartReconciliation_def Transaction_ext Transaction_calls Transaction_result
        StartReconciliation_dbOp_def invoke_def logger_def Let_def)

lemmas store_defs = sample_transition_def sample_repository_def sample_inventory_def
  sample_state_def sample_entity_def sample_world_def sample_options_def sample_writer_def

theorem StartReconciliation_transactional_witness:
  "fst (StartReconciliation sample_transition (sample_state ''c1'' Reconcilable) [''istio'']
          (sample_world ([sample_entity ''c1'' False], [(''c1'', Reconciling)])))
     = Some (DuplicateClusterReconciliationError ''c1'') \<and>
   ext (snd (StartReconciliation sample_transition (sample_state ''c1'' Reconcilable) [''istio'']
          (sample_world ([sample_entity ''c1'' False], [(''c1'', Reconciling)]))))
     = ([sample_entity ''c1'' False], [(''c1'', Reconciling)]) \<and>
   fst (StartReconciliation sample_transition (sample_state ''c1'' Deleted) [''istio'']
          (sample_world ([], [(''c1'', Deleted)])))
     = Some (GenericError ''invalid transition'') \<and>
   ext (snd (StartReconciliation sample_transition (sample_state ''c1'' Deleted) [''istio'']
          (sample_world ([], [(''c1'', Deleted)]))))
     = ([], [(''c1'', Deleted)]) \<and>
   fst (StartReconciliation sample_transition (sample_state ''c1'' Reconcilable) [''istio'']
          (sample_world ([], [(''c1'', Reconcilable)])))
     = None \<and>
   ext (snd (StartReconciliation sample_transition (sample_state ''c1'' Reconcilable) [''istio'']
          (sample_world ([], [(''c1'', Reconcilable)]))))
     = ([sample_entity ''c1'' False], [(''c1'', Reconciling)])"
proof -
  let ?dup = "([sample_entity ''c1'' False], [(''c1'', Reconciling)]) :: store"
  let ?del = "([], [(''c1'', Deleted)]) :: store"
  let ?new = "([], [(''c1'', Reconcilable)]) :: store"
  have c1: "Repository_CreateReconciliation (reconRepo sample_transition) (sample_state ''c1'' Reconcilable)
              [''istio''] (ext (sample_world ?dup)) = (Inl (DuplicateClusterReconciliationError ''c1''), ?dup)"
    by (simp add: store_defs)
  have c2: "Repository_CreateReconciliation (reconRepo sample_transition) (sample_state ''c1'' Deleted)
              [''istio''] (ext (sample_world ?del)) = (Inr (sample_entity ''c1'' False), ([sample_entity ''c1'' False], [(''c1'', Deleted)]))"
    by (simp add: store_defs)
  have u2: "Inventory_UpdateStatus (inventory sample_transition) (sample_state ''c1'' Deleted) Reconciling
              ([sample_entity ''c1'' False], [(''c1'', Deleted)])
            = (Inl (GenericError ''invalid transition'', Some (sample_state ''c1'' Deleted)),
               ([sample_entity ''c1'' False], [(''c1'', Deleted)]))"
    by (simp add: store_defs)
  have c3: "Repository_CreateReconciliation (reconRepo sample_transition) (sample_state ''c1'' Reconcilable)
              [''istio''] (ext (sample_world ?new)) = (Inr (sample_entity ''c1'' False), ([sample_entity ''c1'' False], [(''c1'', Reconcilable)]))"
    by (simp add: store_defs)
  have u3: "Inventory_UpdateStatus (inventory sample_transition) (sample_state ''c1'' Reconcilable) Reconciling
              ([sample_entity ''c1'' False], [(''c1'', Reconcilable)])
            = (Inr ((sample_state ''c1'' Reconcilable)\<lparr>State_Status := \<lparr>StatusOf = Reconciling\<rparr>\<rparr>),
               ([sample_entity ''c1'' False], [(''c1'', Reconciling)]))"
    by (simp add: store_defs)
  have e: "ext (sample_world ?dup) = ?dup" "ext (sample_world ?del) = ?del"
    by (simp_all add: sample_world_def)
  show ?thesis
    using StartReconciliation_transactional
            [of sample_transition "sample_state ''c1'' Reconcilable" "[''istio'']" "sample_world ?dup"
                "DuplicateClusterReconciliationError ''c1''" ?dup]
          StartReconciliation_transactional
            [of sample_transition "sample_state ''c1'' Deleted" "[''istio'']" "sample_world ?del"
                "GenericError ''invalid transition''" "([sample_entity ''c1'' False], [(''c1'', Deleted)])"
                "sample_entity ''c1'' False" "Some (sample_state ''c1'' Deleted)"
                "([sample_entity ''c1'' False], [(''c1'', Deleted)])"]
          StartReconciliation_transactional
            [of sample_transition "sample_state ''c1'' Reconcilable" "[''istio'']" "sample_world ?new"
                _ "([sample_entity ''c1'' False], [(''c1'', Reconcilable)])"
                "sample_entity ''c1'' False" _ "([sample_entity ''c1'' False], [(''c1'', Reconciling)])"
                "(sample_state ''c1'' Reconcilable)\<lparr>State_Status := \<lparr>StatusOf = Reconciling\<rparr>\<rparr>"]
          c1 c2 u2 c3 u3 e
    by simp
qed

lemma FinishReconciliation_dbOp_not_finished:
  assumes g: "Repository_GetReconciliation (reconRepo t) schedulingID (ext w) = (Inr reconEntity, s1)"
    and n: "\<not> Finished reconEntity"
  shows "fst (FinishReconciliation_dbOp t schedulingID status w) = None \<and>
           (\<exists>(clusterState::State) (updated::State).
              calls (snd (FinishReconciliation_dbOp t schedulingID status w)) =
                calls w @ [GetReconciliationCall schedulingID,
                           InventoryGetCall (ReconCluster reconEntity) (ReconClusterConfig reconEntity),
                           InventoryUpdateStatusCall clusterState status,
                           FinishReconciliationCall schedulingID (State_Status updated)])
         \<or> fst (FinishReconciliation_dbOp t schedulingID status w) \<noteq> None"
proof (cases "Inventory_Get (inventory t) (ReconCluster reconEntity) (ReconClusterConfig reconEntity) s1")
  case i: (Pair ri s2)
  show ?thesis
  proof (cases ri)
    case (Inl err)
    then show ?thesis
      using g n i by (simp add: FinishReconciliation_dbOp_def invoke_def logger_def)
  next
    case (Inr clusterState)
    obtain ru s3 where u: "Inventory_UpdateStatus (inventory t) clusterState status s2 = (ru, s3)"
      by (cases "Inventory_UpdateStatus (inventory t) clusterState status s2")
    show ?thesis
    proof (cases ru)
      case (Inl failed)
      then show ?thesis
        using g n i Inr u
        by (cases failed) (simp add: FinishReconciliation_dbOp_def invoke_def logger_def split: option.splits)
    next
      case updated: (Inr updated)
      obtain rf s4 where f: "Repository_FinishReconciliation (reconRepo t) schedulingID (State_Status updated) s3 = (rf, s4)"
        by (cases "Repository_FinishReconciliation (reconRepo t) schedulingID (State_Status updated) s3")
      show ?thesis
      proof (cases rf)
        case None
        have a: "fst (FinishReconciliation_dbOp t schedulingID status w) = None"
          using g n i Inr u updated f None
          by (simp add: FinishReconciliation_dbOp_def invoke_def logger_def)
        have b: "calls (snd (FinishReconciliation_dbOp t schedulingID status w)) =
                calls w @ [GetReconciliationCall schedulingID,
                           InventoryGetCall (ReconCluster reconEntity) (ReconClusterConfig reconEntity),
                           InventoryUpdateStatusCall clusterState status,
                           FinishReconciliationCall schedulingID (State_Status updated)]"
          using g n i Inr u updated f None
          by (simp add: FinishReconciliation_dbOp_def invoke_def logger_def)
        show ?thesis
          by (rule disjI1, rule conjI, rule a, rule exI, rule exI, rule b)
      next
        case (Some err)
        then show ?thesis
          using g n i Inr u updated f
          by (simp add: FinishReconciliation_dbOp_def invoke_def logger_def)
      qed
    qed
  qed
qed

text \<open>
  Claim C2. When the reconciliation with the scheduling ID is marked finished,
  \<open>FinishReconciliation\<close> returns the error that it is already finished, makes no call but
  \<open>GetReconciliation\<close> (neither \<open>Inventory.UpdateStatus\<close> nor \<open>Repository.FinishReconciliation\<close>)
  and leaves the store as it was. When it is not finished and the calls succeed, the cluster
  state is loaded, \<open>UpdateStatus\<close> is called with the given status, then
  \<open>Repository.FinishReconciliation\<close>, and the store is the one these calls left. In one
  transaction: whenever the reconciliation is not finished, either \<open>nil\<close> is returned after
  these calls in this order, or an error is returned and the store is the one before the
  call.
\<close>

theorem FinishReconciliation_transactional:
  "(Repository_GetReconciliation (reconRepo t) schedulingID (ext w) = (Inr reconEntity, s1) \<and>
    Finished reconEntity \<longrightarrow>
      fst (FinishReconciliation t schedulingID status w) =
        Some (Errorf ''reconciliation '%s' is already finished'' [ReconArg reconEntity]) \<and>
      ext (snd (FinishReconciliation t schedulingID status w)) = ext w \<and>
      calls (snd (FinishReconciliation t schedulingID status w)) =
        calls w @ [GetReconciliationCall schedulingID]) \<and>
   (Repository_GetReconciliation (reconRepo t) schedulingID (ext w) = (Inr reconEntity, s1) \<and>
    \<not> Finished reconEntity \<and>
    Inventory_Get (inventory t) (ReconCluster reconEntity) (ReconClusterConfig reconEntity) s1
      = (Inr clusterState, s2) \<and>
    Inventory_UpdateStatus (inventory t) clusterState status s2 = (Inr updated, s3) \<and>
    Repository_FinishReconciliation (reconRepo t) schedulingID (State_Status updated) s3 = (None, s4) \<longrightarrow>
      fst (FinishReconciliation t schedulingID status w) = None \<and>
      ext (snd (FinishReconciliation t schedulingID status w)) = s4 \<and>
      calls (snd (FinishReconciliation t schedulingID status w)) =
        calls w @ [GetReconciliationCall schedulingID,
                   InventoryGetCall (ReconCluster reconEntity) (ReconClusterConfig reconEntity),
                   InventoryUpdateStatusCall clusterState status,
                   FinishReconciliationCall schedulingID (State_Status updated)]) \<and>
   (Repository_GetReconciliation (reconRepo t) schedulingID (ext w) = (Inr reconEntity, s1) \<and>
    \<not> Finished reconEntity \<longrightarrow>
      (fst (FinishReconciliation t schedulingID status w) = None \<and>
       (\<exists>(loaded::State) (changed::State).
          calls (snd (FinishReconciliation t schedulingID status w)) =
            calls w @ [GetReconciliationCall schedulingID,
                       InventoryGetCall (ReconCluster reconEntity) (ReconClusterConfig reconEntity),
                       InventoryUpdateStatusCall loaded status,
                       FinishReconciliationCall schedulingID (State_Status changed)]))
      \<or> (fst (FinishReconciliation t schedulingID status w) \<noteq> None \<and>
          ext (snd (FinishReconciliation t schedulingID status w)) = ext w))"
proof (intro conjI impI)
  assume "Repository_GetReconciliation (reconRepo t) schedulingID (ext w) = (Inr reconEntity, s1) \<and>
          \<not> Finished reconEntity"
  then have g: "Repository_GetReconciliation (reconRepo t) schedulingID (ext w) = (Inr reconEntity, s1)"
    and n: "\<not> Finished reconEntity"
    by simp_all
  show "(fst (FinishReconciliation t schedulingID status w) = None \<and>
         (\<exists>(loaded::State) (changed::State).
            calls (snd (FinishReconciliation t schedulingID status w)) =
              calls w @ [GetReconciliationCall schedulingID,
                         InventoryGetCall (ReconCluster reconEntity) (ReconClusterConfig reconEntity),
                         InventoryUpdateStatusCall loaded status,
                         FinishReconciliationCall schedulingID (State_Status changed)]))
        \<or> (fst (FinishReconciliation t schedulingID status w) \<noteq> None \<and>
            ext (snd (FinishReconciliation t schedulingID status w)) = ext w)"
    using FinishReconciliation_dbOp_not_finished [OF g n, of status]
    by (auto simp add: FinishReconciliation_def Transaction_ext Transaction_calls Transaction_result)
qed (simp_all add: FinishReconciliation_def Transaction_ext Transaction_calls Transaction_result
       FinishReconciliation_dbOp_def invoke_def logger_def)

theorem FinishReconciliation_transactional_witness:
  "fst (FinishReconciliation sample_transition ''id-c1'' Ready
          (sample_world ([sample_entity ''c1'' True], [(''c1'', Ready)])))
     = Some (Errorf ''reconciliation '%s' is already finished'' [ReconArg (sample_entity ''c1'' True)]) \<and>
   ext (snd (FinishReconciliation sample_transition ''id-c1'' Ready
          (sample_world ([sample_entity ''c1'' True], [(''c1'', Ready)]))))
     = ([sample_entity ''c1'' True], [(''c1'', Ready)]) \<and>
   calls (snd (FinishReconciliation sample_transition ''id-c1'' Ready
          (sample_world ([sample_entity ''c1'' True], [(''c1'', Ready)]))))
     = [GetReconciliationCall ''id-c1''] \<and>
   fst (FinishReconciliation sample_transition ''id-c1'' Ready
          (sample_world ([sample_entity ''c1'' False], [(''c1'', Reconciling)])))
     = None \<and>
   ext (snd (FinishReconciliation sample_transition ''id-c1'' Ready
          (sample_world ([sample_entity ''c1'' False], [(''c1'', Reconciling)]))))
     = ([sample_entity ''c1'' True], [(''c1'', Ready)]) \<and>
   calls (snd (FinishReconciliation sample_transition ''id-c1'' Ready
          (sample_world ([sample_entity ''c1'' False], [(''c1'', Reconciling)]))))
     = [GetReconciliationCall ''id-c1'', InventoryGetCall ''c1'' 1,
        InventoryUpdateStatusCall (sample_state ''c1'' Reconciling) Ready,
        FinishReconciliationCall ''id-c1'' \<lparr>StatusOf = Ready\<rparr>]"
proof -
  let ?done = "([sample_entity ''c1'' True], [(''c1'', Ready)]) :: store"
  let ?open = "([sample_entity ''c1'' False], [(''c1'', Reconciling)]) :: store"
  have g1: "Repository_GetReconciliation (reconRepo sample_transition) ''id-c1'' (ext (sample_world ?done))
              = (Inr (sample_entity ''c1'' True), ?done)"
    by (simp add: store_defs)
  have f1: "Finished (sample_entity ''c1'' True)"
    by (simp add: sample_entity_def)
  have g2: "Repository_GetReconciliation (reconRepo sample_transition) ''id-c1'' (ext (sample_world ?open))
              = (Inr (sample_entity ''c1'' False), ?open)"
    by (simp add: store_defs)
  have f2: "\<not> Finished (sample_entity ''c1'' False)"
    by (simp add: sample_entity_def)
  have i2: "Inventory_Get (inventory sample_transition) (ReconCluster (sample_entity ''c1'' False))
              (ReconClusterConfig (sample_entity ''c1'' False)) ?open
            = (Inr (sample_state ''c1'' Reconciling), ?open)"
    by (simp add: store_defs)
  have u2: "Inventory_UpdateStatus (inventory sample_transition) (sample_state ''c1'' Reconciling) Ready ?open
            = (Inr (sample_state ''c1'' Ready), ([sample_entity ''c1'' False], [(''c1'', Ready)]))"
    by (simp add: store_defs)
  have r2: "Repository_FinishReconciliation (reconRepo sample_transition) ''id-c1''
              (State_Status (sample_state ''c1'' Ready)) ([sample_entity ''c1'' False], [(''c1'', Ready)])
            = (None, ?done)"
    by (simp add: store_defs)
  have e: "ext (sample_world ?done) = ?done" "calls (sample_world ?done) = []"
          "calls (sample_world ?open) = []"
          "ReconCluster (sample_entity ''c1'' False) = ''c1''" "ReconClusterConfig (sample_entity ''c1'' False) = 1"
          "State_Status (sample_state ''c1'' Ready) = \<lparr>StatusOf = Ready\<rparr>"
    by (simp_all add: sample_world_def sample_entity_def sample_state_def)
  show ?thesis
    using FinishReconciliation_transactional
            [of sample_transition "''id-c1''" "sample_world ?done" "sample_entity ''c1'' True" ?done Ready]
          FinishReconciliation_transactional
            [of sample_transition "''id-c1''" "sample_world ?open" "sample_entity ''c1'' False" ?open Ready
                "sample_state ''c1'' Reconciling" ?open "sample_state ''c1'' Ready"
                "([sample_entity ''c1'' False], [(''c1'', Ready)])" ?done]
          g1 f1 g2 f2 i2 u2 r2 e
    by simp
qed

section \<open>Properties of the REST handlers\<close>

lemmas handler_defs = get_def delete_def delete_cluster_def param_string_def param_int64_def newParam_def
  sendError_def sendResponse_def http_Error_def json_Encode_def Write_def WriteHeader_def
  responseStatus_def responsePayload_def strconv_ParseInt_def isDigit_def invoke_def Let_def
  StatusOK_def StatusNoContent_def StatusBadRequest_def StatusNotFound_def StatusInternalServerError_def

lemma sendError_status:
  "WrittenStatus rw = None \<Longrightarrow> responseStatus (sendError rw code err) = code"
  by (simp add: sendError_def http_Error_def Write_def WriteHeader_def responseStatus_def Let_def
        split: option.splits)

lemma get_inventory_error:
  assumes "Vars r ''cluster'' = Some cluster"
    and "Vars r ''configVersion'' = Some text"
    and "strconv_ParseInt text = Inr configVersion"
    and "Inventory_Get (Options_Inventory opts) cluster configVersion (ext w) = (Inl err, s1)"
    and "WrittenStatus rw = None"
  shows "responseStatus (fst (get opts r (rw, w))) = StatusInternalServerError"
  using assms
  by (simp add: get_def param_string_def param_int64_def newParam_def invoke_def sendError_status)

lemma delete_not_found:
  assumes "Vars r ''cluster'' = Some cluster"
    and "Inventory_GetLatest (Options_Inventory opts) cluster (ext w) = (Inl err, s1)"
    and "IsNotFoundError err"
    and "WrittenStatus rw = None"
  shows "responseStatus (fst (delete opts r (rw, w))) = StatusNotFound \<and>
         calls (snd (delete opts r (rw, w))) = calls w @ [InventoryGetLatestCall cluster]"
  using assms
  by (simp add: delete_def param_string_def newParam_def invoke_def sendError_status)

text \<open>
  Claim C4. The request \<open>GET /v1/clusters/unknown/configs/1/status\<close> names a cluster that the
  inventory does not hold: \<open>Inventory.Get\<close> returns an error of the kind \<open>NotFound\<close>, and \<open>get\<close>
  answers with status 500, not 404. (\<open>delete\<close> answers an unknown cluster with 404, lemma
  \<open>delete_not_found\<close>.)
\<close>

theorem get_unknown_cluster_responds_500:
  "fst (Inventory_Get (Options_Inventory sample_options) ''unknown'' 1 ([], []))
     = Inl (EntityNotFoundError ''unknown'') \<and>
   IsNotFoundError (EntityNotFoundError ''unknown'') \<and>
   responseStatus (fst (get sample_options
                          \<lparr>Vars = [''cluster'' \<mapsto> ''unknown'', ''configVersion'' \<mapsto> ''1'']\<rparr>
                          (sample_writer, sample_world ([], []))))
     = 500 \<and>
   responseStatus (fst (get sample_options
                          \<lparr>Vars = [''cluster'' \<mapsto> ''unknown'', ''configVersion'' \<mapsto> ''1'']\<rparr>
                          (sample_writer, sample_world ([], []))))
     \<noteq> StatusNotFound"
  by (simp add: store_defs handler_defs)

text \<open>
  Claim C8, as stated: a \<open>DELETE\<close> of a cluster that exists, with a successful
  \<open>Inventory.Delete\<close>, is not answered with status 204.
\<close>

theorem delete_success_not_204:
  "fst (Inventory_GetLatest (Options_Inventory sample_options) ''c1'' ([], [(''c1'', Ready)]))
     = Inr (sample_state ''c1'' Ready) \<and>
   Inventory_Delete (Options_Inventory sample_options) ''c1'' ([], [(''c1'', Ready)]) = (None, ([], [])) \<and>
   responseStatus (fst (delete sample_options \<lparr>Vars = [''cluster'' \<mapsto> ''c1'']\<rparr>
                          (sample_writer, sample_world ([], [(''c1'', Ready)]))))
     \<noteq> StatusNoContent"
  by (simp add: store_defs handler_defs)

text \<open>
  Claim C8, amended. When the cluster exists and \<open>Inventory.Delete\<close> succeeds, \<open>delete\<close> returns
  without writing a header or a body: the response writer is unchanged, and the response has
  the status 200 with which \<open>net/http\<close> answers for a handler that wrote nothing.
\<close>

theorem delete_success_status:
  assumes "Vars r ''cluster'' = Some cluster"
    and "Inventory_GetLatest (Options_Inventory opts) cluster (ext w) = (Inr latest, s1)"
    and "Inventory_Delete (Options_Inventory opts) cluster s1 = (None, s2)"
    and "WrittenStatus rw = None"
  shows "fst (delete opts r (rw, w)) = rw \<and>
         responseStatus (fst (delete opts r (rw, w))) = StatusOK \<and>
         ext (snd (delete opts r (rw, w))) = s2 \<and>
         calls (snd (delete opts r (rw, w))) =
           calls w @ [InventoryGetLatestCall cluster, InventoryDeleteCall cluster]"
  using assms
  by (simp add: delete_def delete_cluster_def param_string_def newParam_def invoke_def
        responseStatus_def)

theorem delete_success_status_witness:
  "Vars \<lparr>Vars = [''cluster'' \<mapsto> ''c1'']\<rparr> ''cluster'' = Some ''c1'' \<and>
   Inventory_GetLatest (Options_Inventory sample_options) ''c1'' (ext (sample_world ([], [(''c1'', Ready)])))
     = (Inr (sample_state ''c1'' Ready), ([], [(''c1'', Ready)])) \<and>
   Inventory_Delete (Options_Inventory sample_options) ''c1'' ([], [(''c1'', Ready)]) = (None, ([], [])) \<and>
   WrittenStatus sample_writer = None \<and>
   responseStatus (fst (delete sample_options \<lparr>Vars = [''cluster'' \<mapsto> ''c1'']\<rparr>
                          (sample_writer, sample_world ([], [(''c1'', Ready)]))))
     = 200 \<and>
   ext (snd (delete sample_options \<lparr>Vars = [''cluster'' \<mapsto> ''c1'']\<rparr>
               (sample_writer, sample_world ([], [(''c1'', Ready)]))))
     = ([], [])"
proof -
  let ?r = "\<lparr>Vars = [''cluster'' \<mapsto> ''c1'']\<rparr>"
  let ?s = "([], [(''c1'', Ready)]) :: store"
  have h1: "Vars ?r ''cluster'' = Some ''c1''"
    by simp
  have h2: "Inventory_GetLatest (Options_Inventory sample_options) ''c1'' (ext (sample_world ?s))
              = (Inr (sample_state ''c1'' Ready), ?s)"
    by (simp add: store_defs)
  have h3: "Inventory_Delete (Options_Inventory sample_options) ''c1'' ?s = (None, ([], []))"
    by (simp add: store_defs)
  have h4: "WrittenStatus sample_writer = None"
    by (simp add: sample_writer_def)
  show ?thesis
    using h1 h2 h3 h4 delete_success_status [OF h1 h2 h3 h4]
    by (simp add: StatusOK_def responseStatus_def)
qed

end
